theory Spec2Isabelle
  imports Main "HOL-Library.Sublist"
begin

section \<open>Paths\<close>

text \<open>
  A \<^verbatim>\<open>pathlib.Path\<close> is the list of its components; every path of the installer is
  absolute, so the empty list is the root directory.  \<open>Path\<close> parses a string the way
  pathlib does (repeated and trailing slashes and \<^verbatim>\<open>.\<close> components disappear), \<open>str\<close>
  prints it back.
\<close>

type_synonym path = "string list"

fun components :: "string \<Rightarrow> string list" where
  "components [] = [[]]"
| "components (c # cs) =
     (if c = CHR ''/'' then [] # components cs
      else (case components cs of [] \<Rightarrow> [[c]] | x # xs \<Rightarrow> (c # x) # xs))"

definition Path :: "string \<Rightarrow> path" where
  "Path s = filter (\<lambda>c. c \<noteq> [] \<and> c \<noteq> ''.'') (components s)"

definition str :: "path \<Rightarrow> string" where
  "str p = (if p = [] then ''/'' else concat (map (\<lambda>c. CHR ''/'' # c) p))"

definition path_parent :: "path \<Rightarrow> path" where
  "path_parent p = butlast p"

definition path_name :: "path \<Rightarrow> string" where
  "path_name p = (if p = [] then [] else last p)"

definition path_join :: "path \<Rightarrow> string \<Rightarrow> path" where
  "path_join p n = p @ [n]"

section \<open>The filesystem\<close>

text \<open>
  The filesystem is an association list from paths to nodes (the first entry of a path
  counts).  A file carries its content and its permission bits.  The operations below are
  the effect of the corresponding library call when it succeeds, and \<open>None\<close> when the call
  raises \<^verbatim>\<open>OSError\<close> because of what it finds.
\<close>

datatype node = Dir | File string nat

type_synonym fs = "(path \<times> node) list"

definition exists_path :: "fs \<Rightarrow> path \<Rightarrow> bool" where
  "exists_path f p \<longleftrightarrow> p = [] \<or> map_of f p \<noteq> None"

definition is_dir :: "fs \<Rightarrow> path \<Rightarrow> bool" where
  "is_dir f p \<longleftrightarrow> p = [] \<or> map_of f p = Some Dir"

definition is_file :: "fs \<Rightarrow> path \<Rightarrow> bool" where
  "is_file f p \<longleftrightarrow> (case map_of f p of Some (File c m) \<Rightarrow> True | _ \<Rightarrow> False)"

definition remove_entry :: "fs \<Rightarrow> path \<Rightarrow> fs" where
  "remove_entry f p = filter (\<lambda>e. fst e \<noteq> p) f"

definition remove_tree :: "fs \<Rightarrow> path \<Rightarrow> fs" where
  "remove_tree f p = filter (\<lambda>e. \<not> prefix p (fst e)) f"

definition put :: "fs \<Rightarrow> path \<Rightarrow> node \<Rightarrow> fs" where
  "put f p n = (p, n) # remove_entry f p"

definition add_missing_dir :: "path \<Rightarrow> fs \<Rightarrow> fs" where
  "add_missing_dir q f = (if exists_path f q then f else (q, Dir) # f)"

text \<open>\<^verbatim>\<open>Path.mkdir(parents=True, exist_ok=True)\<close>\<close>

definition mkdir_parents_fs :: "path \<Rightarrow> fs \<Rightarrow> fs option" where
  "mkdir_parents_fs p f =
     (if list_ex (is_file f) (prefixes p) then None
      else Some (fold add_missing_dir (prefixes p) f))"

text \<open>\<^verbatim>\<open>Path.mkdir()\<close>: the directory must be new and its parent a directory.\<close>

definition mkdir_fs :: "path \<Rightarrow> fs \<Rightarrow> fs option" where
  "mkdir_fs p f =
     (if exists_path f p \<or> \<not> is_dir f (path_parent p) then None else Some ((p, Dir) # f))"

text \<open>\<^verbatim>\<open>open(p, "w")\<close>: creates the file, or truncates it and keeps its mode.\<close>

definition open_w_fs :: "nat \<Rightarrow> path \<Rightarrow> fs \<Rightarrow> fs option" where
  "open_w_fs create_mode p f =
     (if is_dir f p \<or> \<not> is_dir f (path_parent p) then None
      else (case map_of f p of
              Some (File c m) \<Rightarrow> Some (put f p (File [] m))
            | _ \<Rightarrow> Some (put f p (File [] create_mode))))"

definition set_content_fs :: "path \<Rightarrow> string \<Rightarrow> fs \<Rightarrow> fs option" where
  "set_content_fs p d f =
     (case map_of f p of Some (File c m) \<Rightarrow> Some (put f p (File d m)) | _ \<Rightarrow> None)"

definition chmod_fs :: "path \<Rightarrow> nat \<Rightarrow> fs \<Rightarrow> fs option" where
  "chmod_fs p mode f =
     (case map_of f p of
        Some (File c m) \<Rightarrow> Some (put f p (File c mode))
      | Some Dir \<Rightarrow> Some f
      | None \<Rightarrow> if p = [] then Some f else None)"

definition move_tree :: "fs \<Rightarrow> path \<Rightarrow> path \<Rightarrow> fs" where
  "move_tree f src dst =
     map (\<lambda>e. if prefix src (fst e) then (dst @ drop (length src) (fst e), snd e) else e) f"

text \<open>
  \<^verbatim>\<open>os.replace(src, dst)\<close> and \<^verbatim>\<open>os.rename\<close>: a file replaces a file (or takes a free
  name) in one step; a directory moves to a free name.
\<close>

definition replace_fs :: "path \<Rightarrow> path \<Rightarrow> fs \<Rightarrow> fs option" where
  "replace_fs src dst f =
     (case map_of f src of
        Some (File c m) \<Rightarrow>
          if is_dir f dst then None else Some (put (remove_entry f src) dst (File c m))
      | Some Dir \<Rightarrow> if exists_path f dst then None else Some (move_tree f src dst)
      | None \<Rightarrow> None)"

text \<open>\<^verbatim>\<open>shutil.move(src, dst)\<close>: into \<open>dst\<close> when that is a directory, a rename otherwise.\<close>

definition move_fs :: "path \<Rightarrow> path \<Rightarrow> fs \<Rightarrow> fs option" where
  "move_fs src dst f =
     (if is_dir f dst then
        (if exists_path f (path_join dst (path_name src)) then None
         else replace_fs src (path_join dst (path_name src)) f)
      else replace_fs src dst f)"

definition rmtree_fs :: "path \<Rightarrow> fs \<Rightarrow> fs option" where
  "rmtree_fs p f = (if p \<noteq> [] \<and> is_dir f p then Some (remove_tree f p) else None)"

definition unlink_fs :: "path \<Rightarrow> fs \<Rightarrow> fs option" where
  "unlink_fs p f = (if is_file f p then Some (remove_entry f p) else None)"

definition mkdtemp_fs :: "path \<Rightarrow> fs \<Rightarrow> fs option" where
  "mkdtemp_fs p f = (if exists_path f p then None else Some ((p, Dir) # f))"

definition copytree_fs :: "path \<Rightarrow> path \<Rightarrow> fs \<Rightarrow> fs option" where
  "copytree_fs src dst f =
     (if exists_path f dst \<or> \<not> is_dir f src then None
      else Some (map (\<lambda>e. (dst @ drop (length src) (fst e), snd e))
                   (filter (\<lambda>e. prefix src (fst e)) f) @ f))"

definition copy2_fs :: "path \<Rightarrow> path \<Rightarrow> fs \<Rightarrow> fs option" where
  "copy2_fs src dst f =
     (case map_of f src of
        Some (File c m) \<Rightarrow>
          Some (put f (if is_dir f dst then path_join dst (path_name src) else dst) (File c m))
      | _ \<Rightarrow> None)"

text \<open>\<^verbatim>\<open>Path.iterdir()\<close>: the entries directly below \<open>p\<close>, in the order of the list.\<close>

definition iterdir :: "fs \<Rightarrow> path \<Rightarrow> path list" where
  "iterdir f p =
     remdups (filter (\<lambda>q. length q = Suc (length p) \<and> prefix p q) (map fst f))"

section \<open>Events, the environment, the run state\<close>

text \<open>
  Everything the program does to the outside is an event of the trace, in order: what it
  logs and prints, every process it spawns, every request to the network and every
  mutating call to the filesystem.  Interpolated values are left out of the log messages.
\<close>

datatype level = DEBUG | INFO | WARNING | ERROR | SUCCESS

datatype fsop =
    Mkdtemp path
  | MkdirP path
  | Mkdir path
  | OpenW path
  | WriteData path string
  | Chmod path nat
  | Replace path path
  | Move path path
  | Rmtree path
  | Unlink path
  | Download string path
  | Extract path path
  | Copytree path path
  | Copy2 path path

datatype event =
    Log level string
  | DryRun string string
  | Print string
  | Shell string
  | Exec "string list"
  | Net string
  | Input string
  | Fs fsop

fun mutating :: "event \<Rightarrow> bool" where
  "mutating (Shell c) = True"
| "mutating (Exec a) = True"
| "mutating (Fs op) = True"
| "mutating e = False"

record completed_process =
  returncode :: int
  stdout :: string
  stderr :: string

datatype error =
    CalledProcessError completed_process
  | RuntimeError string
  | OSError
  | KeyError string
  | ValueError
  | BadZipFile
  | TarError
  | SystemExit int

datatype api_reply = ApiFailed | ApiNoOffer | ApiOffer string string

text \<open>
  The environment answers for everything outside the program, as a function of the
  history (the trace up to and including the event that asks): the exit status and output
  of a spawned process and what it did to the filesystem, whether a filesystem call fails
  with an I/O error, the clock, the name \<^verbatim>\<open>mkdtemp\<close> picks, the replies of the network,
  the content of an archive, the user's answer.  \<open>re_sub\<close> and \<open>str_replace\<close> stand for the
  library's text substitution (pattern, replacement, text).
\<close>

record env =
  proc_rc :: "event list \<Rightarrow> int"
  proc_stdout :: "event list \<Rightarrow> string"
  proc_stderr :: "event list \<Rightarrow> string"
  proc_fx :: "event list \<Rightarrow> fs \<Rightarrow> fs"
  io_error :: "event list \<Rightarrow> bool"
  io_partial :: "event list \<Rightarrow> nat"
  clock :: "event list \<Rightarrow> string"
  mkdtemp_name :: "event list \<Rightarrow> string"
  wp_api :: "event list \<Rightarrow> api_reply"
  wp_salts :: "event list \<Rightarrow> string option"
  payload :: "event list \<Rightarrow> string"
  archive_of :: "event list \<Rightarrow> (path \<times> node) list option"
  stdin_line :: "event list \<Rightarrow> string"
  euid :: nat
  create_mode :: nat
  re_sub :: "string \<Rightarrow> string \<Rightarrow> string \<Rightarrow> string"
  str_replace :: "string \<Rightarrow> string \<Rightarrow> string \<Rightarrow> string"

text \<open>The dictionary \<^verbatim>\<open>cfg\<close> that \<^verbatim>\<open>main\<close> builds (lines 887-903).\<close>

record cfg =
  cfg_domain :: string
  cfg_email :: string
  cfg_db_name :: string
  cfg_db_user :: string
  cfg_db_pass :: string
  cfg_certbot :: bool
  cfg_dry_run :: bool
  cfg_overwrite :: bool
  cfg_php_version :: string
  cfg_web_root :: string
  cfg_nginx_conf :: string

text \<open>The global dictionary \<^verbatim>\<open>state\<close> (lines 117-127, and \<^verbatim>\<open>last_cfg\<close> of line 906).\<close>

record state =
  st_created_paths :: "string list"
  st_created_db :: bool
  st_db_name :: "string option"
  st_db_user :: "string option"
  st_nginx_conf_path :: "string option"
  st_web_root :: "string option"
  st_tmp_dirs :: "string list"
  st_executing :: bool
  st_overwrite :: bool
  st_last_cfg :: "cfg option"

definition initial_state :: state where
  "initial_state =
     \<lparr>st_created_paths = [], st_created_db = False, st_db_name = None, st_db_user = None,
      st_nginx_conf_path = None, st_web_root = None, st_tmp_dirs = [],
      st_executing = False, st_overwrite = False, st_last_cfg = None\<rparr>"

record world =
  fs :: fs
  trace :: "event list"
  st :: state

section \<open>Programs: state passing with exceptions\<close>

type_synonym 'a prog = "world \<Rightarrow> (error + 'a) \<times> world"

definition ret :: "'a \<Rightarrow> 'a prog" where
  "ret a w = (Inr a, w)"

definition raise :: "error \<Rightarrow> 'a prog" where
  "raise e w = (Inl e, w)"

definition bind :: "'a prog \<Rightarrow> ('a \<Rightarrow> 'b prog) \<Rightarrow> 'b prog" where
  "bind m k w = (case m w of (Inl e, w') \<Rightarrow> (Inl e, w') | (Inr a, w') \<Rightarrow> k a w')"

definition seq :: "'a prog \<Rightarrow> 'b prog \<Rightarrow> 'b prog" where
  "seq m n = bind m (\<lambda>a. n)"

definition ignore :: "'a prog \<Rightarrow> unit prog" where
  "ignore m = bind m (\<lambda>a. ret ())"

text \<open>A block of statements: the first exception ends it.\<close>

fun block :: "unit prog list \<Rightarrow> unit prog" where
  "block [] = ret ()"
| "block (m # ms) = bind m (\<lambda>u. block ms)"

text \<open>\<^verbatim>\<open>if c: m else: n\<close> where the condition reads the world.\<close>

definition cond :: "(world \<Rightarrow> bool) \<Rightarrow> 'a prog \<Rightarrow> 'a prog \<Rightarrow> 'a prog" where
  "cond c m n w = (if c w then m w else n w)"

text \<open>
  \<^verbatim>\<open>try: m except Exception as e: h e\<close>.  \<^verbatim>\<open>SystemExit\<close> is no \<^verbatim>\<open>Exception\<close>: it
  passes through.
\<close>

definition try_except :: "'a prog \<Rightarrow> (error \<Rightarrow> 'a prog) \<Rightarrow> 'a prog" where
  "try_except m h w =
     (case m w of
        (Inl (SystemExit c), w') \<Rightarrow> (Inl (SystemExit c), w')
      | (Inl e, w') \<Rightarrow> h e w'
      | (Inr a, w') \<Rightarrow> (Inr a, w'))"

text \<open>
  \<^verbatim>\<open>try: m finally: n\<close>: \<open>n\<close> runs however \<open>m\<close> ends, and the outcome of \<open>m\<close> stands
  unless \<open>n\<close> raises.
\<close>

definition try_finally :: "'a prog \<Rightarrow> unit prog \<Rightarrow> 'a prog" where
  "try_finally m n w =
     (case m w of
        (r, w') \<Rightarrow> (case n w' of (Inl e, w'') \<Rightarrow> (Inl e, w'') | (Inr u, w'') \<Rightarrow> (r, w'')))"

definition gets :: "(world \<Rightarrow> 'a) \<Rightarrow> 'a prog" where
  "gets g w = (Inr (g w), w)"

definition emit :: "event \<Rightarrow> unit prog" where
  "emit e w = (Inr (), w\<lparr>trace := trace w @ [e]\<rparr>)"

definition modify_st :: "(state \<Rightarrow> state) \<Rightarrow> unit prog" where
  "modify_st g w = (Inr (), w\<lparr>st := g (st w)\<rparr>)"

text \<open>
  A mutating filesystem call: the call is recorded, then it either fails with an I/O
  error (the environment's choice, or what it finds) or takes effect.
\<close>

definition fs_call :: "env \<Rightarrow> fsop \<Rightarrow> (fs \<Rightarrow> fs option) \<Rightarrow> unit prog" where
  "fs_call E op g w =
     (let w1 = w\<lparr>trace := trace w @ [Fs op]\<rparr> in
      if io_error E (trace w1) then (Inl OSError, w1)
      else (case g (fs w1) of
              None \<Rightarrow> (Inl OSError, w1)
            | Some f' \<Rightarrow> (Inr (), w1\<lparr>fs := f'\<rparr>)))"

text \<open>
  \<^verbatim>\<open>f.write(data)\<close> on the open file: an I/O error leaves a part of the data in place.
\<close>

definition write_data :: "env \<Rightarrow> path \<Rightarrow> string \<Rightarrow> unit prog" where
  "write_data E p d w =
     (let w1 = w\<lparr>trace := trace w @ [Fs (WriteData p d)]\<rparr> in
      if io_error E (trace w1) then
        (case set_content_fs p (take (io_partial E (trace w1)) d) (fs w1) of
           None \<Rightarrow> (Inl OSError, w1)
         | Some f' \<Rightarrow> (Inl OSError, w1\<lparr>fs := f'\<rparr>))
      else (case set_content_fs p d (fs w1) of
              None \<Rightarrow> (Inl OSError, w1)
            | Some f' \<Rightarrow> (Inr (), w1\<lparr>fs := f'\<rparr>)))"

text \<open>\<^verbatim>\<open>open(p, "r").read()\<close>\<close>

definition read_file :: "path \<Rightarrow> string prog" where
  "read_file p w =
     (case map_of (fs w) p of Some (File c m) \<Rightarrow> (Inr c, w) | _ \<Rightarrow> (Inl OSError, w))"

text \<open>
  \<^verbatim>\<open>subprocess.run\<close>: the process is spawned and waited for; what it did to the
  filesystem is the environment's.  With \<^verbatim>\<open>check=True\<close> a non-zero exit status raises
  \<^verbatim>\<open>CalledProcessError\<close>.  Without \<^verbatim>\<open>capture_output\<close> the result holds no output.
\<close>

definition subprocess_run :: "env \<Rightarrow> event \<Rightarrow> bool \<Rightarrow> bool \<Rightarrow> completed_process prog" where
  "subprocess_run E ev check capture_output w =
     (let w1 = w\<lparr>trace := trace w @ [ev]\<rparr>;
          h = trace w1;
          w2 = w1\<lparr>fs := proc_fx E h (fs w1)\<rparr>;
          r = \<lparr>returncode = proc_rc E h,
               stdout = (if capture_output then proc_stdout E h else []),
               stderr = (if capture_output then proc_stderr E h else [])\<rparr>
      in if check \<and> returncode r \<noteq> 0 then (Inl (CalledProcessError r), w2) else (Inr r, w2))"

section \<open>Logging (lines 78-112)\<close>

definition debug :: "string \<Rightarrow> unit prog" where
  "debug msg = emit (Log DEBUG msg)"

definition info :: "string \<Rightarrow> unit prog" where
  "info msg = emit (Log INFO msg)"

definition success :: "string \<Rightarrow> unit prog" where
  "success msg = emit (Log SUCCESS msg)"

definition warning :: "string \<Rightarrow> unit prog" where
  "warning msg = emit (Log WARNING msg)"

definition error :: "string \<Rightarrow> unit prog" where
  "error msg = emit (Log ERROR msg)"

definition dry_run_print :: "string \<Rightarrow> string \<Rightarrow> unit prog" where
  "dry_run_print desc cmd = emit (DryRun desc cmd)"

definition print :: "string \<Rightarrow> unit prog" where
  "print s = emit (Print s)"

text \<open>The gate of every effectful helper: \<^verbatim>\<open>dry_run and not state.get("executing", False)\<close>.\<close>

definition simulate :: "bool \<Rightarrow> world \<Rightarrow> bool" where
  "simulate dry_run w \<longleftrightarrow> dry_run \<and> \<not> st_executing (st w)"

section \<open>Utility functions (lines 133-433)\<close>

text \<open>
  \<^verbatim>\<open>run_cmd\<close>, lines 133-164.  Every caller leaves \<^verbatim>\<open>shell\<close> at its default.
\<close>

definition run_cmd :: "env \<Rightarrow> string \<Rightarrow> bool \<Rightarrow> bool \<Rightarrow> bool \<Rightarrow> completed_process prog" where
  "run_cmd E cmd capture_output check dry_run =
     seq (debug ''run_cmd called'')
       (cond (simulate dry_run)
          (seq (dry_run_print ''Would run command'' cmd)
               (ret \<lparr>returncode = 0, stdout = [], stderr = []\<rparr>))
          (seq (info ''Executing command'')
             (try_except
                (bind (subprocess_run E (Shell cmd) check capture_output) (\<lambda>result.
                   seq (block
                          [debug ''Command completed'',
                           if stdout result \<noteq> [] \<and> \<not> capture_output
                           then debug ''Command stdout'' else ret (),
                           if stderr result \<noteq> [] then warning ''Command stderr'' else ret ()])
                       (ret result)))
                (\<lambda>e. case e of
                       CalledProcessError r \<Rightarrow>
                         seq (block
                                [error ''Command failed'',
                                 if stdout r \<noteq> [] then error ''Failed command stdout'' else ret (),
                                 if stderr r \<noteq> [] then error ''Failed command stderr'' else ret ()])
                             (raise e)
                     | _ \<Rightarrow> raise e))))"

text \<open>\<^verbatim>\<open>ensure_root\<close>, lines 171-179.\<close>

definition ensure_root :: "env \<Rightarrow> bool \<Rightarrow> unit prog" where
  "ensure_root E dry_run =
     seq (debug ''Checking root privileges'')
       (if dry_run then warning ''Dry-run mode: not enforcing root privileges''
        else if euid E \<noteq> 0 then
          seq (error ''This script must be run as root (use sudo). Exiting.'')
              (raise (SystemExit 1))
        else info ''Root privileges confirmed'')"

text \<open>\<^verbatim>\<open>timestamp\<close>, lines 181-182: the UTC time to the second, as fourteen digits.\<close>

definition timestamp :: "env \<Rightarrow> string prog" where
  "timestamp E = gets (\<lambda>w. clock E (trace w))"

text \<open>
  \<^verbatim>\<open>atomic_write\<close>, lines 184-203.  \<open>atomic_tmp_path\<close> is the name of line 193 and
  \<open>atomic_write_body\<close> the statements of lines 194-203, one filesystem call each.
\<close>

definition atomic_tmp_path :: "path \<Rightarrow> string \<Rightarrow> path" where
  "atomic_tmp_path p ts = path_join (path_parent p) (''.tmp.'' @ path_name p @ ''.'' @ ts)"

definition atomic_write_body :: "env \<Rightarrow> path \<Rightarrow> string \<Rightarrow> nat \<Rightarrow> path \<Rightarrow> unit prog list" where
  "atomic_write_body E p data mode tmp =
     [debug ''Creating temporary file'',
      fs_call E (MkdirP (path_parent tmp)) (mkdir_parents_fs (path_parent tmp)),
      fs_call E (OpenW tmp) (open_w_fs (create_mode E) tmp),
      write_data E tmp data,
      fs_call E (Chmod tmp mode) (chmod_fs tmp mode),
      fs_call E (Replace tmp p) (replace_fs tmp p),
      info ''Wrote file'',
      debug ''File write complete'']"

definition atomic_write :: "env \<Rightarrow> path \<Rightarrow> string \<Rightarrow> nat \<Rightarrow> bool \<Rightarrow> unit prog" where
  "atomic_write E p data mode dry_run =
     seq (debug ''atomic_write called'')
       (cond (simulate dry_run)
          (dry_run_print (''Would write file '' @ str p) [])
          (bind (timestamp E) (\<lambda>ts.
             block (atomic_write_body E p data mode (atomic_tmp_path p ts)))))"

text \<open>
  \<^verbatim>\<open>fetch_latest_wordpress_download_url\<close>, lines 247-279.  \<open>urlopen_api\<close> is the request
  and the decoding of its reply (lines 258-268).
\<close>

definition urlopen_api :: "env \<Rightarrow> string \<Rightarrow> api_reply prog" where
  "urlopen_api E url w =
     (let w1 = w\<lparr>trace := trace w @ [Net url]\<rparr> in (Inr (wp_api E (trace w1)), w1))"

definition fetch_latest_wordpress_download_url :: "env \<Rightarrow> (string \<times> string) prog" where
  "fetch_latest_wordpress_download_url E =
     seq (debug ''Fetching WordPress version info'')
       (bind
          (try_except
             (seq (info ''Querying WordPress version API...'')
                (bind (urlopen_api E ''https://api.wordpress.org/core/version-check/1.7/'')
                   (\<lambda>reply. case reply of
                      ApiOffer version download \<Rightarrow>
                        seq (block [debug ''WordPress API response received'',
                                    info ''Latest WordPress version'',
                                    debug ''WordPress download URL''])
                            (ret (Some (version, download)))
                    | ApiNoOffer \<Rightarrow>
                        seq (debug ''WordPress API response received'') (ret None)
                    | ApiFailed \<Rightarrow> raise OSError)))
             (\<lambda>e. seq (block [warning ''Failed to get WP version via API'',
                              debug ''WordPress API error details''])
                      (ret None)))
          (\<lambda>r. case r of
             Some vd \<Rightarrow> ret vd
           | None \<Rightarrow>
               seq (warning ''Falling back to wordpress.org/latest.tar.gz'')
                   (ret (''latest'', ''https://wordpress.org/latest.tar.gz''))))"

text \<open>
  \<^verbatim>\<open>download_and_extract_wp\<close>, lines 287-377, and the library calls it makes:
  \<^verbatim>\<open>tempfile.mkdtemp\<close>, \<^verbatim>\<open>urlretrieve\<close>, \<^verbatim>\<open>extractall\<close>.
\<close>

definition mkdtemp :: "env \<Rightarrow> path prog" where
  "mkdtemp E w =
     (let p = Path (mkdtemp_name E (trace w)) in
      seq (fs_call E (Mkdtemp p) (mkdtemp_fs p)) (ret p) w)"

definition urlretrieve :: "env \<Rightarrow> string \<Rightarrow> path \<Rightarrow> unit prog" where
  "urlretrieve E url p w =
     (let w1 = w\<lparr>trace := trace w @ [Fs (Download url p)]\<rparr> in
      if io_error E (trace w1) \<or> is_dir (fs w1) p \<or> \<not> is_dir (fs w1) (path_parent p)
      then (Inl OSError, w1)
      else (Inr (), w1\<lparr>fs := put (fs w1) p (File (payload E (trace w1)) (create_mode E))\<rparr>))"

definition extractall :: "env \<Rightarrow> bool \<Rightarrow> path \<Rightarrow> path \<Rightarrow> unit prog" where
  "extractall E is_zip archive_path extracted w =
     (let w1 = w\<lparr>trace := trace w @ [Fs (Extract archive_path extracted)]\<rparr> in
      if io_error E (trace w1) \<or> \<not> is_file (fs w1) archive_path then (Inl OSError, w1)
      else (case archive_of E (trace w1) of
              None \<Rightarrow> (Inl (if is_zip then BadZipFile else TarError), w1)
            | Some es \<Rightarrow>
                (Inr (), w1\<lparr>fs := map (\<lambda>e. (extracted @ fst e, snd e)) es @ fs w1\<rparr>)))"

definition to_lower :: "char \<Rightarrow> char" where
  "to_lower c =
     (let n = (of_char c :: nat) in if 65 \<le> n \<and> n \<le> 90 then char_of (n + 32) else c)"

definition find_wp_root :: "fs \<Rightarrow> path \<Rightarrow> path" where
  "find_wp_root f extracted =
     (case find (\<lambda>q. is_dir f q \<and> prefix ''wordpress'' (map to_lower (path_name q)))
             (iterdir f extracted) of
        Some q \<Rightarrow> q
      | None \<Rightarrow> extracted)"

definition copy_item :: "env \<Rightarrow> path \<Rightarrow> path \<Rightarrow> unit prog" where
  "copy_item E dest item =
     (let target = path_join dest (path_name item) in
      seq (debug ''Copying'')
        (cond (\<lambda>w. is_dir (fs w) item)
           (block [cond (\<lambda>w. exists_path (fs w) target)
                     (fs_call E (Rmtree target) (rmtree_fs target)) (ret ()),
                   fs_call E (Copytree item target) (copytree_fs item target)])
           (fs_call E (Copy2 item target) (copy2_fs item target))))"

definition download_and_extract_wp :: "env \<Rightarrow> string \<Rightarrow> path \<Rightarrow> bool \<Rightarrow> unit prog" where
  "download_and_extract_wp E download_url dest dry_run =
     seq (debug ''download_and_extract_wp called'')
       (bind (mkdtemp E) (\<lambda>tmpdir.
          let is_zip = suffix ''.zip'' download_url;
              archive_path = path_join tmpdir (if is_zip then ''wp.zip'' else ''wp.tar.gz'');
              extracted = path_join tmpdir ''extracted''
          in
          seq (block [modify_st (\<lambda>s. s\<lparr>st_tmp_dirs := st_tmp_dirs s @ [str tmpdir]\<rparr>),
                      debug ''Created temporary directory''])
            (cond (simulate dry_run)
               (dry_run_print ''Would download WordPress'' download_url)
               (block
                  [info ''Downloading WordPress ...'',
                   try_except
                     (block [urlretrieve E download_url archive_path,
                             cond (\<lambda>w. is_file (fs w) archive_path)
                               (info ''Download complete'') (raise OSError)])
                     (\<lambda>e. seq (error ''Failed to download WordPress archive'')
                              (raise (RuntimeError ''Failed to download WordPress archive''))),
                   fs_call E (Mkdir extracted) (mkdir_fs extracted),
                   debug ''Extracting archive'',
                   try_except
                     (block [extractall E is_zip archive_path extracted,
                             info ''Extraction complete''])
                     (\<lambda>e. case e of
                        BadZipFile \<Rightarrow>
                          seq (error ''Failed to extract WordPress zip file'')
                              (raise (RuntimeError ''Failed to extract WordPress zip file''))
                      | TarError \<Rightarrow>
                          seq (error ''Failed to extract WordPress tarball'')
                              (raise (RuntimeError ''Failed to extract WordPress tarball''))
                      | _ \<Rightarrow>
                          seq (error ''Failed to extract WordPress archive'')
                              (raise (RuntimeError ''Failed to extract WordPress archive''))),
                   bind (gets (\<lambda>w. find_wp_root (fs w) extracted)) (\<lambda>wp_root.
                     block
                       [if wp_root = extracted
                        then debug ''Using extracted directory directly as WordPress root''
                        else debug ''Found WordPress root directory'',
                        info ''Copying WordPress files ...'',
                        fs_call E (MkdirP dest) (mkdir_parents_fs dest),
                        bind (gets (\<lambda>w. iterdir (fs w) wp_root)) (\<lambda>items.
                          block (map (copy_item E dest) items)),
                        info ''WordPress files copied'',
                        success ''WordPress downloaded and extracted''])]))))"

text \<open>\<^verbatim>\<open>mysql_exec\<close>, lines 382-402.\<close>

definition mysql_exec :: "env \<Rightarrow> string \<Rightarrow> bool \<Rightarrow> unit prog" where
  "mysql_exec E sql dry_run =
     seq (debug ''mysql_exec called'')
       (cond (simulate dry_run)
          (dry_run_print ''Would run MySQL statement''
             (''sudo mysql -u root -e '' @ take 100 sql))
          (seq (info ''Executing MySQL'')
             (try_except
                (bind (subprocess_run E (Exec [''sudo'', ''mysql'', ''-u'', ''root'', ''-e'', sql])
                         True True) (\<lambda>result.
                   block [debug ''MySQL command completed'',
                          if stdout result \<noteq> [] then debug ''MySQL stdout'' else ret ()]))
                (\<lambda>e. case e of
                       CalledProcessError r \<Rightarrow> seq (error ''MySQL command failed'') (raise e)
                     | _ \<Rightarrow> raise e))))"

text \<open>\<^verbatim>\<open>backup_path\<close>, lines 404-412.  \<^verbatim>\<open>with_name\<close> raises on the root.\<close>

definition backup_path :: "env \<Rightarrow> path \<Rightarrow> path option prog" where
  "backup_path E p =
     seq (debug ''backup_path called'')
       (cond (\<lambda>w. \<not> exists_path (fs w) p)
          (ret None)
          (if p = [] then raise ValueError
           else bind (timestamp E) (\<lambda>ts.
             let bak = path_join (path_parent p) (path_name p @ ''.bak-'' @ ts) in
             seq (block [fs_call E (Move p bak) (move_fs p bak), info ''Backed up''])
                 (ret (Some bak)))))"

text \<open>\<^verbatim>\<open>remove_path\<close>, lines 416-433.\<close>

definition remove_path :: "env \<Rightarrow> path \<Rightarrow> bool \<Rightarrow> unit prog" where
  "remove_path E p dry_run =
     seq (debug ''remove_path called'')
       (cond (\<lambda>w. \<not> exists_path (fs w) p)
          (debug ''Path does not exist, skipping removal'')
          (cond (simulate dry_run)
             (dry_run_print ''Would remove'' (str p))
             (cond (\<lambda>w. is_dir (fs w) p)
                (block [fs_call E (Rmtree p) (rmtree_fs p), info ''Removed directory''])
                (block [fs_call E (Unlink p) (unlink_fs p), info ''Removed file'']))))"

section \<open>Step functions (lines 441-778)\<close>

definition show_plan :: "cfg \<Rightarrow> unit prog" where
  "show_plan cfg =
     block
       [debug ''show_plan called'',
        print ''=================================================='',
        info ''LEMP + WordPress installation plan'',
        print ''=================================================='',
        print (if cfg_dry_run cfg then ''Mode: DRY-RUN (no changes)'' else ''Mode: EXECUTE''),
        print (''Domain: '' @ cfg_domain cfg),
        print (''Email: '' @ cfg_email cfg),
        print ''Install SSL (certbot)'',
        print (''Web root: '' @ cfg_web_root cfg),
        print (''Nginx config: '' @ cfg_nginx_conf cfg),
        print ''MySQL root: Socket authentication (passwordless via sudo)'',
        print (''DB name: '' @ cfg_db_name cfg),
        print (''DB user: '' @ cfg_db_user cfg),
        print (''PHP version (detected): '' @ cfg_php_version cfg),
        print ''Overwrite enabled'',
        print ''=================================================='']"

definition step_update_system :: "env \<Rightarrow> cfg \<Rightarrow> unit prog" where
  "step_update_system E cfg =
     block
       [info ''Step 1: Updating system packages'',
        debug ''Starting system package update'',
        ignore (run_cmd E ''apt update && apt upgrade -y'' False True (cfg_dry_run cfg)),
        success ''System packages updated'']"

definition step_install_nginx :: "env \<Rightarrow> cfg \<Rightarrow> unit prog" where
  "step_install_nginx E cfg =
     block
       [info ''Step 2: Install and start Nginx'',
        debug ''Installing Nginx package'',
        ignore (run_cmd E ''apt install -y nginx'' False True (cfg_dry_run cfg)),
        debug ''Enabling Nginx service'',
        ignore (run_cmd E ''systemctl enable nginx'' False True (cfg_dry_run cfg)),
        debug ''Starting Nginx service'',
        ignore (run_cmd E ''systemctl start nginx'' False True (cfg_dry_run cfg)),
        success ''Nginx installed and started'']"

definition step_install_mysql :: "env \<Rightarrow> cfg \<Rightarrow> unit prog" where
  "step_install_mysql E cfg =
     block
       [info ''Step 3: Install MySQL server and secure it'',
        debug ''Installing MySQL server package'',
        ignore (run_cmd E ''apt install -y mysql-server'' False True (cfg_dry_run cfg)),
        if cfg_dry_run cfg then dry_run_print ''Would secure MySQL'' []
        else block
          [debug ''Securing MySQL installation'',
           try_except
             (block
                [debug ''Configuring MySQL root for socket authentication'',
                 ignore (subprocess_run E
                   (Exec [''sudo'', ''mysql'', ''-e'',
                          ''ALTER USER root@localhost IDENTIFIED WITH auth_socket;''])
                   False True),
                 info ''MySQL root configured for socket authentication''])
             (\<lambda>e. warning ''Failed to configure socket authentication''),
           try_except
             (block
                [debug ''Removing anonymous MySQL users'',
                 mysql_exec E ''DELETE FROM mysql.user WHERE User=;'' (cfg_dry_run cfg),
                 debug ''Removing remote root access'',
                 mysql_exec E ''DELETE FROM mysql.user WHERE User=root AND Host NOT IN (localhost);''
                   (cfg_dry_run cfg),
                 debug ''Dropping test database'',
                 mysql_exec E ''DROP DATABASE IF EXISTS test;'' (cfg_dry_run cfg),
                 debug ''Removing test database privileges'',
                 mysql_exec E ''DELETE FROM mysql.db WHERE Db=test OR Db LIKE test_%;''
                   (cfg_dry_run cfg),
                 debug ''Flushing MySQL privileges'',
                 mysql_exec E ''FLUSH PRIVILEGES;'' (cfg_dry_run cfg),
                 success ''MySQL secured with socket authentication''])
             (\<lambda>e. case e of
                CalledProcessError r \<Rightarrow>
                  seq (error ''MySQL secure commands failed'')
                      (raise (RuntimeError ''MySQL secure commands failed''))
              | _ \<Rightarrow> raise e)]]"

definition step_install_php :: "env \<Rightarrow> cfg \<Rightarrow> unit prog" where
  "step_install_php E cfg =
     (let php_ini = Path (''/etc/php/'' @ cfg_php_version cfg @ ''/fpm/php.ini'') in
      block
        [info ''Step 4: Install PHP and extensions'',
         debug ''Installing PHP and extensions'',
         ignore (run_cmd E
           (''apt install -y '' @
            ''php-fpm php-mysql php-curl php-gd php-mbstring php-xml php-xmlrpc php-soap php-intl php-zip'')
           False True (cfg_dry_run cfg)),
         debug ''Configuring PHP settings'',
         if cfg_dry_run cfg then dry_run_print ''Would edit php.ini'' (str php_ini)
         else cond (\<lambda>w. \<not> exists_path (fs w) php_ini)
           (warning ''php.ini not found; skipping php.ini edits'')
           (seq (debug ''Reading PHP ini file'')
              (bind (read_file php_ini) (\<lambda>content.
                 let c1 = re_sub E ''upload_max_filesize'' ''upload_max_filesize = 64M'' content;
                     c2 = re_sub E ''post_max_size'' ''post_max_size = 64M'' c1;
                     c3 = re_sub E ''memory_limit'' ''memory_limit = 256M'' c2;
                     c4 = re_sub E ''max_execution_time'' ''max_execution_time = 300'' c3
                 in block [debug ''PHP ini modifications complete'',
                           atomic_write E php_ini c4 420 (cfg_dry_run cfg)]))),
         debug ''Restarting PHP-FPM service'',
         ignore (run_cmd E (''systemctl restart php'' @ cfg_php_version cfg @ ''-fpm'')
           False True (cfg_dry_run cfg)),
         success ''PHP installed and configured''])"

text \<open>The SQL statements of lines 576 and 580-585, without their quoting characters.\<close>

definition drop_sql :: "string \<Rightarrow> string \<Rightarrow> string" where
  "drop_sql db user =
     ''DROP DATABASE IF EXISTS '' @ db @ ''; DROP USER IF EXISTS '' @ user @
     ''@localhost; FLUSH PRIVILEGES;''"

definition create_sql :: "string \<Rightarrow> string \<Rightarrow> string \<Rightarrow> string" where
  "create_sql db user passwd =
     ''CREATE DATABASE IF NOT EXISTS '' @ db @ ''; CREATE USER IF NOT EXISTS '' @ user @
     ''@localhost IDENTIFIED BY '' @ passwd @ ''; GRANT ALL PRIVILEGES ON '' @ db @
     ''.* TO '' @ user @ ''@localhost; FLUSH PRIVILEGES;''"

definition step_create_database :: "env \<Rightarrow> cfg \<Rightarrow> unit prog" where
  "step_create_database E cfg =
     block
       [info ''Step 5: Create WordPress database and user'',
        debug ''Database creation requested'',
        modify_st (\<lambda>s. s\<lparr>st_db_name := Some (cfg_db_name cfg),
                           st_db_user := Some (cfg_db_user cfg)\<rparr>),
        if cfg_overwrite cfg then
          block [info ''Overwrite requested: dropping existing database and user if they exist'',
                 debug ''Dropping database and user'',
                 mysql_exec E (drop_sql (cfg_db_name cfg) (cfg_db_user cfg)) (cfg_dry_run cfg)]
        else ret (),
        debug ''Creating database and user'',
        mysql_exec E (create_sql (cfg_db_name cfg) (cfg_db_user cfg) (cfg_db_pass cfg))
          (cfg_dry_run cfg),
        modify_st (\<lambda>s. s\<lparr>st_created_db := True\<rparr>),
        success ''Database creation step complete'']"

text \<open>
  \<^verbatim>\<open>step_download_and_install_wp\<close>, lines 590-659.  \<open>prepare_web_root\<close> is its block of
  lines 600-615 (the existing web root and the overwrite policy, then the creation of the
  web root), \<open>configure_wp\<close> its block of lines 625-652.
\<close>

definition prepare_web_root :: "env \<Rightarrow> cfg \<Rightarrow> path \<Rightarrow> unit prog" where
  "prepare_web_root E cfg webroot =
     block
       [cond (\<lambda>w. exists_path (fs w) webroot)
          (seq (debug ''Webroot already exists'')
             (if cfg_overwrite cfg then
                block [info ''Overwrite enabled: removing existing web root'',
                       remove_path E webroot (cfg_dry_run cfg)]
              else
                seq (error ''Web root already exists and overwrite not enabled'')
                    (raise (RuntimeError ''Web root already exists. Use --overwrite to replace.''))))
          (ret ()),
        cond (simulate (cfg_dry_run cfg))
          (dry_run_print ''Would create web root directory'' (str webroot))
          (block [debug ''Creating web root directory'',
                  fs_call E (MkdirP webroot) (mkdir_parents_fs webroot),
                  modify_st (\<lambda>s. s\<lparr>st_created_paths := st_created_paths s @ [str webroot]\<rparr>)])]"

definition urlopen_salts :: "env \<Rightarrow> string \<Rightarrow> string prog" where
  "urlopen_salts E url w =
     (let w1 = w\<lparr>trace := trace w @ [Net url]\<rparr> in
      case wp_salts E (trace w1) of
        None \<Rightarrow> (Inl OSError, w1)
      | Some salts \<Rightarrow> (Inr salts, w1))"

definition configure_wp :: "env \<Rightarrow> cfg \<Rightarrow> path \<Rightarrow> unit prog" where
  "configure_wp E cfg webroot =
     (let wp_sample = path_join webroot ''wp-config-sample.php'';
          wp_conf = path_join webroot ''wp-config.php''
      in
      cond (\<lambda>w. exists_path (fs w) wp_sample)
        (cond (simulate (cfg_dry_run cfg))
           (dry_run_print ''Would create wp-config.php'' (str wp_sample))
           (seq (debug ''Reading wp-config-sample.php'')
              (bind (read_file wp_sample) (\<lambda>conf0.
                 let conf1 = str_replace E ''database_name_here'' (cfg_db_name cfg) conf0;
                     conf2 = str_replace E ''username_here'' (cfg_db_user cfg) conf1;
                     conf3 = str_replace E ''password_here'' (cfg_db_pass cfg) conf2
                 in
                 seq (debug ''Replacing database credentials in wp-config'')
                   (bind
                      (try_except
                         (seq (info ''Fetching WordPress salts from API...'')
                            (bind (urlopen_salts E ''https://api.wordpress.org/secret-key/1.1/salt/'')
                               (\<lambda>salts.
                                  seq (debug ''WordPress salts fetched'')
                                      (ret (re_sub E ''AUTH_KEY...NONCE_SALT'' salts conf3)))))
                         (\<lambda>e. seq (warning ''Failed to fetch salts from WP API'') (ret conf3)))
                      (\<lambda>conf. atomic_write E wp_conf conf 420 (cfg_dry_run cfg)))))))
        (ret ()))"

definition step_download_and_install_wp :: "env \<Rightarrow> cfg \<Rightarrow> unit prog" where
  "step_download_and_install_wp E cfg =
     (let webroot = Path (cfg_web_root cfg) in
      block
        [info ''Step 6: Download and install WordPress'',
         modify_st (\<lambda>s. s\<lparr>st_web_root := Some (str webroot)\<rparr>),
         debug ''WordPress installation requested'',
         bind (fetch_latest_wordpress_download_url E) (\<lambda>vd.
           block
             [info ''Will download WordPress version'',
              prepare_web_root E cfg webroot,
              download_and_extract_wp E (snd vd) webroot (cfg_dry_run cfg),
              debug ''Configuring WordPress'',
              configure_wp E cfg webroot,
              debug ''Setting file ownership and permissions'',
              ignore (run_cmd E (''chown -R www-data:www-data '' @ str webroot)
                False True (cfg_dry_run cfg)),
              ignore (run_cmd E (''find '' @ str webroot @ '' -type d -exec chmod 755 {} ;'')
                False True (cfg_dry_run cfg)),
              ignore (run_cmd E (''find '' @ str webroot @ '' -type f -exec chmod 644 {} ;'')
                False True (cfg_dry_run cfg)),
              success ''WordPress files installed and permissions set''])])"

text \<open>
  \<^verbatim>\<open>step_configure_nginx\<close>, lines 667-745.  \<open>nginx_conf_text\<close> is the template of lines
  674-716 with its three interpolations (the static lines are shortened), and
  \<open>prepare_nginx_conf\<close> the block of lines 719-730.
\<close>

definition nginx_conf_text :: "cfg \<Rightarrow> string" where
  "nginx_conf_text cfg =
     ''server { listen 80; server_name '' @ cfg_domain cfg @ '' www.'' @ cfg_domain cfg @
     ''; root '' @ cfg_web_root cfg @ ''; index index.php; fastcgi_pass unix:/run/php/php'' @
     cfg_php_version cfg @ ''-fpm.sock; }''"

definition prepare_nginx_conf :: "env \<Rightarrow> cfg \<Rightarrow> path \<Rightarrow> unit prog" where
  "prepare_nginx_conf E cfg nginx_conf_path =
     block
       [cond (\<lambda>w. exists_path (fs w) nginx_conf_path)
          (seq (debug ''Nginx config already exists'')
             (if cfg_overwrite cfg then
                block [info ''Overwrite: backing up and removing existing nginx config'',
                       ignore (backup_path E nginx_conf_path)]
              else
                seq (error ''Nginx config already exists and overwrite not enabled'')
                    (raise (RuntimeError ''Nginx config exists. Use --overwrite to replace.''))))
          (ret ()),
        debug ''Writing Nginx configuration'',
        atomic_write E nginx_conf_path (nginx_conf_text cfg) 420 (cfg_dry_run cfg)]"

definition step_configure_nginx :: "env \<Rightarrow> cfg \<Rightarrow> unit prog" where
  "step_configure_nginx E cfg =
     (let nginx_conf_path = Path (cfg_nginx_conf cfg) in
      block
        [info ''Step 7: Create Nginx site configuration for WordPress'',
         modify_st (\<lambda>s. s\<lparr>st_nginx_conf_path := Some (str nginx_conf_path)\<rparr>),
         debug ''Configuring Nginx'',
         prepare_nginx_conf E cfg nginx_conf_path,
         debug ''Creating symlink to sites-enabled'',
         ignore (run_cmd E (''ln -sf '' @ str nginx_conf_path @ '' /etc/nginx/sites-enabled/'')
           False True (cfg_dry_run cfg)),
         debug ''Removing default Nginx site'',
         ignore (run_cmd E ''rm -f /etc/nginx/sites-enabled/default'' False True (cfg_dry_run cfg)),
         debug ''Testing Nginx configuration'',
         ignore (run_cmd E ''nginx -t'' False True (cfg_dry_run cfg)),
         debug ''Reloading Nginx'',
         ignore (run_cmd E ''systemctl reload nginx'' False True (cfg_dry_run cfg)),
         success ''Nginx configured for site''])"

definition certbot_cmd :: "cfg \<Rightarrow> string" where
  "certbot_cmd cfg =
     ''certbot --nginx -d '' @ cfg_domain cfg @ '' -d www.'' @ cfg_domain cfg @
     '' --non-interactive --agree-tos -m '' @ cfg_email cfg @ '' --redirect''"

definition step_install_ssl :: "env \<Rightarrow> cfg \<Rightarrow> unit prog" where
  "step_install_ssl E cfg =
     (if \<not> cfg_certbot cfg then info ''SSL installation skipped (certbot not requested)''
      else block
        [info ''Step 8: Install Certbot and obtain Lets Encrypt certificate'',
         debug ''Installing Certbot'',
         ignore (run_cmd E ''apt install -y certbot python3-certbot-nginx'' False True
           (cfg_dry_run cfg)),
         if cfg_dry_run cfg then
           dry_run_print ''Would run certbot to obtain/renew certificates for domain''
             (certbot_cmd cfg)
         else block [debug ''Running Certbot for domain'',
                     ignore (run_cmd E (certbot_cmd cfg) False True False),
                     success ''SSL certificate installed'']])"

definition show_summary :: "cfg \<Rightarrow> unit prog" where
  "show_summary cfg =
     block
       [debug ''Showing installation summary'',
        print ''=================================================='',
        info ''Installation summary'',
        print ''=================================================='',
        if cfg_dry_run cfg then info ''DRY-RUN complete. No changes were made.''
        else success ''Installation steps finished (check for errors above).'',
        print (''Domain: '' @ cfg_domain cfg),
        print (''Web root: '' @ cfg_web_root cfg),
        print (''Nginx config: '' @ cfg_nginx_conf cfg),
        print (''Database: '' @ cfg_db_name cfg),
        if \<not> cfg_dry_run cfg \<and> cfg_certbot cfg then print (''HTTPS: https://'' @ cfg_domain cfg)
        else ret (),
        print ''=================================================='']"

section \<open>Cleanup, signal handler, main (lines 784-966)\<close>

text \<open>
  \<^verbatim>\<open>cleanup_full\<close>, lines 784-832: its first statement (line 789), then
  \<open>cleanup_actions\<close>, the rest of its body.  The signal handler may pass the empty
  dictionary (\<open>None\<close>): then \<^verbatim>\<open>cfg["web_root"]\<close> of line 793 raises \<^verbatim>\<open>KeyError\<close>.
\<close>

definition cleanup_tmp_dir :: "env \<Rightarrow> bool \<Rightarrow> string \<Rightarrow> unit prog" where
  "cleanup_tmp_dir E dry_run td =
     try_except
       (cond (\<lambda>w. exists_path (fs w) (Path td)) (remove_path E (Path td) dry_run) (ret ()))
       (\<lambda>e. debug ''Failed to remove temp dir'')"

definition cleanup_actions :: "env \<Rightarrow> cfg option \<Rightarrow> unit prog" where
  "cleanup_actions E c =
     seq (debug ''Full cleanup initiated'')
       (case c of
          None \<Rightarrow> raise (KeyError ''web_root'')
        | Some cfg \<Rightarrow>
            (let webroot = Path (cfg_web_root cfg);
                 nginx_conf_path = Path (cfg_nginx_conf cfg);
                 symlink = path_join (Path ''/etc/nginx/sites-enabled'') (path_name nginx_conf_path)
             in
             block
               [cond (\<lambda>w. exists_path (fs w) webroot)
                  (block [debug ''Removing web root during cleanup'',
                          remove_path E webroot (cfg_dry_run cfg)])
                  (ret ()),
                cond (\<lambda>w. exists_path (fs w) symlink)
                  (block [debug ''Removing Nginx symlink during cleanup'',
                          remove_path E symlink (cfg_dry_run cfg)])
                  (ret ()),
                cond (\<lambda>w. exists_path (fs w) nginx_conf_path)
                  (block [debug ''Removing Nginx config during cleanup'',
                          remove_path E nginx_conf_path (cfg_dry_run cfg)])
                  (ret ()),
                cond (\<lambda>w. cfg_overwrite cfg \<or> st_created_db (st w))
                  (block [debug ''Dropping database and user during cleanup'',
                          try_except
                            (mysql_exec E (drop_sql (cfg_db_name cfg) (cfg_db_user cfg))
                               (cfg_dry_run cfg))
                            (\<lambda>e. warning ''Failed to drop DB/user during cleanup'')])
                  (ret ()),
                debug ''Removing temporary directories'',
                bind (gets (\<lambda>w. st_tmp_dirs (st w))) (\<lambda>tds.
                  block (map (cleanup_tmp_dir E (cfg_dry_run cfg)) tds)),
                success ''Cleanup complete'']))"

definition cleanup_full :: "env \<Rightarrow> cfg option \<Rightarrow> unit prog" where
  "cleanup_full E c =
     seq (warning ''Running full cleanup (Option A)...'') (cleanup_actions E c)"

text \<open>\<^verbatim>\<open>signal_handler\<close>, lines 838-847.\<close>

definition signal_handler :: "env \<Rightarrow> nat \<Rightarrow> unit prog" where
  "signal_handler E sig =
     block
       [warning ''Received signal. Attempting cleanup...'',
        debug ''Signal handler invoked'',
        bind (gets (\<lambda>w. st_last_cfg (st w))) (\<lambda>c.
          try_except (cleanup_full E c)
            (\<lambda>e. error ''Cleanup failed during signal handling'')),
        raise (SystemExit 1)]"

text \<open>
  \<^verbatim>\<open>main\<close> from line 905 on, with the configuration that lines 860-903 resolve.
  \<open>pipeline\<close> is the sequence of the steps of lines 932-939, \<open>main_try_body\<close> the body of
  the \<^verbatim>\<open>try\<close> (lines 932-943), \<open>main_except\<close> the handler of lines 944-952,
  \<open>main_finally\<close> the \<^verbatim>\<open>finally\<close> block of lines 953-966 and \<open>main_run\<close> the whole
  \<^verbatim>\<open>try\<close> statement of lines 931-966.
\<close>

definition input_line :: "env \<Rightarrow> string \<Rightarrow> string prog" where
  "input_line E prompt w =
     (let w1 = w\<lparr>trace := trace w @ [Input prompt]\<rparr> in (Inr (stdin_line E (trace w1)), w1))"

definition strip :: "string \<Rightarrow> string" where
  "strip s =
     rev (dropWhile (\<lambda>c. c = CHR '' '' \<or> c = CHR 0x0A \<or> c = CHR 0x09)
       (rev (dropWhile (\<lambda>c. c = CHR '' '' \<or> c = CHR 0x0A \<or> c = CHR 0x09) s)))"

definition pipeline :: "env \<Rightarrow> cfg \<Rightarrow> unit prog list" where
  "pipeline E cfg =
     [step_update_system E cfg,
      step_install_nginx E cfg,
      step_install_mysql E cfg,
      step_install_php E cfg,
      step_create_database E cfg,
      step_download_and_install_wp E cfg,
      step_configure_nginx E cfg,
      step_install_ssl E cfg]"

definition main_try_body :: "env \<Rightarrow> cfg \<Rightarrow> unit prog list" where
  "main_try_body E cfg =
     pipeline E cfg @ [info ''All installation steps completed'', show_summary cfg]"

definition main_except :: "env \<Rightarrow> cfg \<Rightarrow> error \<Rightarrow> unit prog" where
  "main_except E cfg exc =
     block
       [error ''Installation failed'',
        debug ''Exception details'',
        try_except (cleanup_full E (Some cfg)) (\<lambda>e. error ''Cleanup encountered errors''),
        raise (SystemExit 1)]"

definition finally_tmp_dir :: "env \<Rightarrow> cfg \<Rightarrow> string \<Rightarrow> unit prog" where
  "finally_tmp_dir E cfg td =
     try_except
       (cond (\<lambda>w. exists_path (fs w) (Path td))
          (if cfg_dry_run cfg then dry_run_print ''Would remove temporary dir'' (str (Path td))
           else block [fs_call E (Rmtree (Path td)) (rmtree_fs (Path td)),
                       debug ''Removed temporary directory''])
          (ret ()))
       (\<lambda>e. debug ''Failed to remove temp dir in finally'')"

definition main_finally :: "env \<Rightarrow> cfg \<Rightarrow> unit prog" where
  "main_finally E cfg =
     seq (debug ''Cleaning up temporary directories'')
       (bind (gets (\<lambda>w. st_tmp_dirs (st w))) (\<lambda>tds. block (map (finally_tmp_dir E cfg) tds)))"

definition main_run :: "env \<Rightarrow> cfg \<Rightarrow> unit prog" where
  "main_run E cfg =
     try_finally
       (try_except (block (main_try_body E cfg)) (main_except E cfg))
       (main_finally E cfg)"

definition main :: "env \<Rightarrow> cfg \<Rightarrow> unit prog" where
  "main E cfg =
     block
       [modify_st (\<lambda>s. s\<lparr>st_last_cfg := Some cfg, st_overwrite := cfg_overwrite cfg\<rparr>),
        debug ''Configuration prepared'',
        show_plan cfg,
        if \<not> cfg_dry_run cfg then
          bind (input_line E ''Continue with installation? (y/N) '') (\<lambda>resp.
            if map to_lower (strip resp) \<noteq> ''y'' then
              seq (warning ''Installation cancelled by user.'') (raise (SystemExit 0))
            else ret ())
        else ret (),
        ensure_root E (cfg_dry_run cfg),
        modify_st (\<lambda>s. s\<lparr>st_executing := \<not> cfg_dry_run cfg\<rparr>),
        cond (\<lambda>w. st_executing (st w))
          (info ''Starting installation in EXECUTE mode'')
          (info ''Starting installation in DRY-RUN mode''),
        main_run E cfg]"

text \<open>The exit status of the process: 0 on return, the code of \<^verbatim>\<open>sys.exit\<close>, 1 on a traceback.\<close>

definition exit_code :: "(error + unit) \<Rightarrow> int" where
  "exit_code r = (case r of Inr u \<Rightarrow> 0 | Inl (SystemExit c) \<Rightarrow> c | Inl e \<Rightarrow> 1)"

section \<open>Notions for the statements\<close>

text \<open>
  \<open>extends_by P w w'\<close>: from \<open>w\<close> to \<open>w'\<close> the trace has grown by events that satisfy \<open>P\<close>,
  and the filesystem is the same unless one of them is a mutating event.  \<open>emits P m\<close>:
  every run of \<open>m\<close> does that.  \<open>logs_only\<close>: nothing happened but logging, printing and
  reading.
\<close>

definition extends_by :: "(event \<Rightarrow> bool) \<Rightarrow> world \<Rightarrow> world \<Rightarrow> bool" where
  "extends_by P w w' \<longleftrightarrow>
     (\<exists>es. trace w' = trace w @ es \<and> list_all P es \<and>
           (list_all (\<lambda>e. \<not> mutating e) es \<longrightarrow> fs w' = fs w))"

definition emits :: "(event \<Rightarrow> bool) \<Rightarrow> 'a prog \<Rightarrow> bool" where
  "emits P m \<longleftrightarrow> (\<forall>w. extends_by P w (snd (m w)))"

definition logs_only :: "world \<Rightarrow> world \<Rightarrow> bool" where
  "logs_only w w' \<longleftrightarrow> st w' = st w \<and> extends_by (\<lambda>e. \<not> mutating e) w w'"

definition logger :: "unit prog \<Rightarrow> bool" where
  "logger m \<longleftrightarrow> (\<forall>w. fst (m w) = Inr () \<and> logs_only w (snd (m w)))"

text \<open>
  The worlds a block passes through: before each statement, and after the last one that
  ran (the one that raised, or the last of the block).
\<close>

fun states_of :: "unit prog list \<Rightarrow> world \<Rightarrow> world list" where
  "states_of [] w = [w]"
| "states_of (m # ms) w =
     w # (case m w of (Inl e, w') \<Rightarrow> [w'] | (Inr u, w') \<Rightarrow> states_of ms w')"

text \<open>The first statement of \<^verbatim>\<open>cleanup_full\<close> (line 789) marks each of its invocations.\<close>

definition cleanup_marker :: event where
  "cleanup_marker = Log WARNING ''Running full cleanup (Option A)...''"

definition cleanup_calls :: "world \<Rightarrow> nat" where
  "cleanup_calls w = length (filter (\<lambda>e. e = cleanup_marker) (trace w))"

text \<open>\<open>no_exit m\<close>: \<open>m\<close> never ends in \<^verbatim>\<open>sys.exit\<close>.\<close>

definition no_exit :: "'a prog \<Rightarrow> bool" where
  "no_exit m \<longleftrightarrow> (\<forall>w c. fst (m w) \<noteq> Inl (SystemExit c))"

section \<open>Concrete inputs\<close>

text \<open>
  An environment in which every process exits with status 0 and changes no file, no
  filesystem call fails, the WordPress API is out of reach and the archive is corrupt; it
  is run as root and answers the prompt with \<^verbatim>\<open>y\<close>.
\<close>

definition env0 :: env where
  "env0 =
     \<lparr>proc_rc = (\<lambda>h. 0), proc_stdout = (\<lambda>h. []), proc_stderr = (\<lambda>h. []),
      proc_fx = (\<lambda>h f. f), io_error = (\<lambda>h. False), io_partial = (\<lambda>h. 0),
      clock = (\<lambda>h. ''20240101000000''), mkdtemp_name = (\<lambda>h. ''/tmp/wpdl_x''),
      wp_api = (\<lambda>h. ApiFailed), wp_salts = (\<lambda>h. None), payload = (\<lambda>h. []),
      archive_of = (\<lambda>h. None), stdin_line = (\<lambda>h. ''y''), euid = 0, create_mode = 420,
      re_sub = (\<lambda>p r t. t), str_replace = (\<lambda>p r t. t)\<rparr>"

definition world0 :: world where
  "world0 = \<lparr>fs = [], trace = [], st = initial_state\<rparr>"

section \<open>Rules for programs\<close>

declare block.simps [simp del]

named_theorems emits_intros

lemma simulate_upd [simp]:
  "simulate d (w\<lparr>trace := t\<rparr>) = simulate d w"
  "simulate d (w\<lparr>fs := f\<rparr>) = simulate d w"
  by (simp_all add: simulate_def)

lemma bind_Inr: "m w = (Inr a, w') \<Longrightarrow> bind m k w = k a w'"
  by (simp add: bind_def)

lemma bind_Inl: "m w = (Inl e, w') \<Longrightarrow> bind m k w = (Inl e, w')"
  by (simp add: bind_def)

lemma cond_simps: "c w \<Longrightarrow> cond c m n w = m w" "\<not> c w \<Longrightarrow> cond c m n w = n w"
  by (simp_all add: cond_def)

lemma seq_log:
  "seq (debug s) n w = n (w\<lparr>trace := trace w @ [Log DEBUG s]\<rparr>)"
  "seq (info s) n w = n (w\<lparr>trace := trace w @ [Log INFO s]\<rparr>)"
  "seq (warning s) n w = n (w\<lparr>trace := trace w @ [Log WARNING s]\<rparr>)"
  "seq (error s) n w = n (w\<lparr>trace := trace w @ [Log ERROR s]\<rparr>)"
  "seq (success s) n w = n (w\<lparr>trace := trace w @ [Log SUCCESS s]\<rparr>)"
  "seq (print s) n w = n (w\<lparr>trace := trace w @ [Print s]\<rparr>)"
  "seq (dry_run_print a b) n w = n (w\<lparr>trace := trace w @ [DryRun a b]\<rparr>)"
  by (simp_all add: seq_def bind_def emit_def debug_def info_def warning_def error_def
      success_def print_def dry_run_print_def)

lemma extends_by_refl: "extends_by P w w"
  by (simp add: extends_by_def)

lemma extends_by_trans:
  "extends_by P a b \<Longrightarrow> extends_by P b c \<Longrightarrow> extends_by P a c"
  unfolding extends_by_def
  by (elim exE conjE, rule_tac x = "es @ esa" in exI) auto

lemma extends_by_event:
  "P e \<Longrightarrow> extends_by P w (w\<lparr>trace := trace w @ [e]\<rparr>)"
  by (simp add: extends_by_def)

lemma extends_by_mut:
  "P e \<Longrightarrow> mutating e \<Longrightarrow> extends_by P w (w\<lparr>trace := trace w @ [e], fs := f\<rparr>)"
  by (simp add: extends_by_def)

lemma emitsI: "(\<And>w. extends_by P w (snd (m w))) \<Longrightarrow> emits P m"
  by (simp add: emits_def)

lemma emitsD: "emits P m \<Longrightarrow> extends_by P w (snd (m w))"
  by (simp add: emits_def)

lemma emits_ret [emits_intros]: "emits P (ret a)"
  by (simp add: emits_def ret_def extends_by_refl)

lemma emits_raise [emits_intros]: "emits P (raise e)"
  by (simp add: emits_def raise_def extends_by_refl)

lemma emits_gets [emits_intros]: "emits P (gets g)"
  by (simp add: emits_def gets_def extends_by_refl)

lemma emits_bind [emits_intros]:
  assumes "emits P m" and "\<And>a. emits P (k a)"
  shows "emits P (bind m k)"
proof (rule emitsI)
  fix w
  show "extends_by P w (snd (bind m k w))"
  proof (cases "m w")
    case (Pair r w')
    with emitsD [OF assms(1), of w] have 1: "extends_by P w w'" by simp
    show ?thesis
    proof (cases r)
      case (Inl e)
      with Pair 1 show ?thesis by (simp add: bind_def)
    next
      case (Inr a)
      with Pair have "bind m k w = k a w'" by (simp add: bind_def)
      moreover have "extends_by P w' (snd (k a w'))" by (rule emitsD) (rule assms(2))
      ultimately show ?thesis using 1
        by (auto intro: extends_by_trans)
    qed
  qed
qed

lemma emits_seq [emits_intros]: "emits P m \<Longrightarrow> emits P n \<Longrightarrow> emits P (seq m n)"
  by (simp add: seq_def emits_bind)

lemma emits_ignore [emits_intros]: "emits P m \<Longrightarrow> emits P (ignore m)"
  by (simp add: ignore_def emits_bind emits_ret)

lemma emits_block [emits_intros]: "list_all (emits P) ms \<Longrightarrow> emits P (block ms)"
  by (induction ms) (auto simp: block.simps intro: emits_ret emits_bind)

lemma emits_cond [emits_intros]: "emits P m \<Longrightarrow> emits P n \<Longrightarrow> emits P (cond c m n)"
  by (simp add: emits_def cond_def)

lemma emits_if [emits_intros]:
  "(b \<Longrightarrow> emits P m) \<Longrightarrow> (\<not> b \<Longrightarrow> emits P n) \<Longrightarrow> emits P (if b then m else n)"
  by simp

lemma emits_try_except [emits_intros]:
  assumes "emits P m" and "\<And>e. emits P (h e)"
  shows "emits P (try_except m h)"
proof (rule emitsI)
  fix w
  obtain r w' where mw: "m w = (r, w')" by (cases "m w")
  with emitsD [OF assms(1), of w] have 1: "extends_by P w w'" by simp
  show "extends_by P w (snd (try_except m h w))"
  proof (cases r)
    case (Inr a)
    with mw 1 show ?thesis by (simp add: try_except_def)
  next
    case (Inl e)
    show ?thesis
    proof (cases "\<exists>c. e = SystemExit c")
      case True
      with Inl mw 1 show ?thesis by (auto simp: try_except_def)
    next
      case False
      with Inl mw have "try_except m h w = h e w'"
        by (cases e) (simp_all add: try_except_def)
      moreover have "extends_by P w' (snd (h e w'))" by (rule emitsD) (rule assms(2))
      ultimately show ?thesis using 1
        by (auto intro: extends_by_trans)
    qed
  qed
qed

lemma emits_try_finally [emits_intros]:
  assumes "emits P m" and "emits P n"
  shows "emits P (try_finally m n)"
proof (rule emitsI)
  fix w
  obtain r w' where mw: "m w = (r, w')" by (cases "m w")
  obtain r' w'' where nw: "n w' = (r', w'')" by (cases "n w'")
  from mw emitsD [OF assms(1), of w] have 1: "extends_by P w w'" by simp
  from nw emitsD [OF assms(2), of w'] have 2: "extends_by P w' w''" by simp
  have "snd (try_finally m n w) = w''"
    using mw nw by (cases r') (simp_all add: try_finally_def)
  with 1 2 show "extends_by P w (snd (try_finally m n w))"
    by (auto intro: extends_by_trans)
qed

lemma emits_emit [emits_intros]: "P e \<Longrightarrow> emits P (emit e)"
  by (simp add: emits_def emit_def extends_by_event)

lemma emits_log [emits_intros]:
  "P (Log DEBUG s) \<Longrightarrow> emits P (debug s)"
  "P (Log INFO s) \<Longrightarrow> emits P (info s)"
  "P (Log WARNING s) \<Longrightarrow> emits P (warning s)"
  "P (Log ERROR s) \<Longrightarrow> emits P (error s)"
  "P (Log SUCCESS s) \<Longrightarrow> emits P (success s)"
  "P (Print s) \<Longrightarrow> emits P (print s)"
  "P (DryRun a b) \<Longrightarrow> emits P (dry_run_print a b)"
  by (simp_all add: debug_def info_def warning_def error_def success_def print_def
      dry_run_print_def emits_emit)

lemma emits_modify_st [emits_intros]: "emits P (modify_st g)"
  by (simp add: emits_def modify_st_def extends_by_def)

lemma emits_fs_call [emits_intros]: "P (Fs op) \<Longrightarrow> emits P (fs_call E op g)"
  by (auto simp: emits_def fs_call_def Let_def extends_by_def split: option.splits)

lemma emits_write_data [emits_intros]: "P (Fs (WriteData p d)) \<Longrightarrow> emits P (write_data E p d)"
  by (auto simp: emits_def write_data_def Let_def extends_by_def split: option.splits)

lemma emits_read_file [emits_intros]: "emits P (read_file p)"
  by (auto simp: emits_def read_file_def extends_by_def split: option.splits node.splits)

lemma emits_subprocess_run [emits_intros]:
  "P ev \<Longrightarrow> mutating ev \<Longrightarrow> emits P (subprocess_run E ev check capture_output)"
  by (auto simp: emits_def subprocess_run_def Let_def extends_by_def)

lemma emits_urlopen_api [emits_intros]: "P (Net url) \<Longrightarrow> emits P (urlopen_api E url)"
  by (auto simp: emits_def urlopen_api_def Let_def extends_by_def)

lemma emits_urlopen_salts [emits_intros]: "P (Net url) \<Longrightarrow> emits P (urlopen_salts E url)"
  by (auto simp: emits_def urlopen_salts_def Let_def extends_by_def split: option.splits)

lemma emits_input_line [emits_intros]: "P (Input s) \<Longrightarrow> emits P (input_line E s)"
  by (auto simp: emits_def input_line_def Let_def extends_by_def)

lemma emits_timestamp [emits_intros]: "emits P (timestamp E)"
  by (simp add: timestamp_def emits_gets)

lemma emits_urlretrieve [emits_intros]:
  "P (Fs (Download url p)) \<Longrightarrow> emits P (urlretrieve E url p)"
  by (auto simp: emits_def urlretrieve_def Let_def extends_by_def)

lemma emits_extractall [emits_intros]:
  "P (Fs (Extract a x)) \<Longrightarrow> emits P (extractall E z a x)"
  by (auto simp: emits_def extractall_def Let_def extends_by_def split: option.splits)

lemma emits_mkdtemp [emits_intros]: "(\<And>p. P (Fs (Mkdtemp p))) \<Longrightarrow> emits P (mkdtemp E)"
proof (rule emitsI)
  fix w :: world
  assume P: "\<And>p. P (Fs (Mkdtemp p))"
  have "emits P (seq (fs_call E (Mkdtemp (Path (mkdtemp_name E (trace w))))
          (mkdtemp_fs (Path (mkdtemp_name E (trace w))))) (ret (Path (mkdtemp_name E (trace w)))))"
    by (intro emits_seq emits_fs_call emits_ret P)
  then show "extends_by P w (snd (mkdtemp E w))"
    by (simp add: mkdtemp_def Let_def emits_def)
qed

lemma logs_only_refl: "logs_only w w"
  by (simp add: logs_only_def extends_by_refl)

lemma logs_only_trans: "logs_only a b \<Longrightarrow> logs_only b c \<Longrightarrow> logs_only a c"
  by (auto simp: logs_only_def intro: extends_by_trans)

lemma logger_emit: "\<not> mutating e \<Longrightarrow> logger (emit e)"
  by (simp add: logger_def emit_def logs_only_def extends_by_def)

lemma logger_bind: "logger m \<Longrightarrow> logger n \<Longrightarrow> logger (bind m (\<lambda>u. n))"
proof -
  assume m: "logger m" and n: "logger n"
  show ?thesis
    unfolding logger_def
  proof (intro allI)
    fix w
    obtain w' where mw: "m w = (Inr (), w')" and 1: "logs_only w w'"
      using m by (cases "m w") (auto simp: logger_def dest!: spec [of _ w])
    obtain w'' where nw: "n w' = (Inr (), w'')" and 2: "logs_only w' w''"
      using n by (cases "n w'") (auto simp: logger_def dest!: spec [of _ w'])
    from mw nw have "bind m (\<lambda>u. n) w = (Inr (), w'')" by (simp add: bind_def)
    with 1 2 show "fst (bind m (\<lambda>u. n) w) = Inr () \<and> logs_only w (snd (bind m (\<lambda>u. n) w))"
      by (auto intro: logs_only_trans)
  qed
qed

lemma logger_logs [simp]:
  "logger (debug s)" "logger (info s)" "logger (warning s)" "logger (error s)"
  "logger (success s)" "logger (print s)" "logger (dry_run_print a b)"
  by (simp_all add: debug_def info_def warning_def error_def success_def print_def
      dry_run_print_def logger_emit)

lemma logger_ret [simp]: "logger (ret ())"
  by (simp add: logger_def ret_def logs_only_refl)

lemma logger_if [simp]: "logger m \<Longrightarrow> logger n \<Longrightarrow> logger (if b then m else n)"
  by simp

lemma logger_block: "list_all logger ms \<Longrightarrow> logger (block ms)"
  by (induction ms) (auto simp: block.simps intro: logger_bind)

lemma logger_seq: "logger m \<Longrightarrow> logger n \<Longrightarrow> logger (seq m n)"
  by (simp add: seq_def logger_bind)

lemma seq_logger: "logger m \<Longrightarrow> seq m n w = n (snd (m w))"
  by (cases "m w") (auto simp: logger_def seq_def bind_def dest!: spec [of _ w])

lemma seq_logger_ret: "logger m \<Longrightarrow> seq m (ret a) w = (Inr a, snd (m w))"
  by (simp add: seq_logger ret_def)

lemma seq_logger_raise: "logger m \<Longrightarrow> seq m (raise e) w = (Inl e, snd (m w))"
  by (simp add: seq_logger raise_def)

lemma logger_world: "logger m \<Longrightarrow> logs_only w (snd (m w))"
  by (simp add: logger_def)

lemma logger_result: "logger m \<Longrightarrow> fst (m w) = Inr ()"
  by (simp add: logger_def)

section \<open>What the functions emit, and that they do not exit\<close>

named_theorems no_exit_intros

lemma no_exitD: "no_exit m \<Longrightarrow> m w = (Inl (SystemExit c), w') \<Longrightarrow> False"
  by (auto simp: no_exit_def dest!: spec [of _ w])

lemma no_exit_ret [no_exit_intros]: "no_exit (ret a)"
  by (simp add: no_exit_def ret_def)

lemma no_exit_gets [no_exit_intros]: "no_exit (gets g)"
  by (simp add: no_exit_def gets_def)

lemma no_exit_raise [no_exit_intros]: "(\<And>c. e \<noteq> SystemExit c) \<Longrightarrow> no_exit (raise e)"
  by (simp add: no_exit_def raise_def)

lemma no_exit_bind [no_exit_intros]:
  "no_exit m \<Longrightarrow> (\<And>a. no_exit (k a)) \<Longrightarrow> no_exit (bind m k)"
  unfolding no_exit_def bind_def
  by (auto split: prod.splits sum.splits) (metis fst_conv)

lemma no_exit_seq [no_exit_intros]: "no_exit m \<Longrightarrow> no_exit n \<Longrightarrow> no_exit (seq m n)"
  by (simp add: seq_def no_exit_bind)

lemma no_exit_ignore [no_exit_intros]: "no_exit m \<Longrightarrow> no_exit (ignore m)"
  by (simp add: ignore_def no_exit_bind no_exit_ret)

lemma no_exit_block [no_exit_intros]: "list_all no_exit ms \<Longrightarrow> no_exit (block ms)"
  by (induction ms) (auto simp: block.simps intro: no_exit_ret no_exit_bind)

lemma no_exit_cond [no_exit_intros]: "no_exit m \<Longrightarrow> no_exit n \<Longrightarrow> no_exit (cond c m n)"
  by (simp add: no_exit_def cond_def)

lemma no_exit_if [no_exit_intros]:
  "(b \<Longrightarrow> no_exit m) \<Longrightarrow> (\<not> b \<Longrightarrow> no_exit n) \<Longrightarrow> no_exit (if b then m else n)"
  by simp

lemma no_exit_try_except [no_exit_intros]:
  assumes "no_exit m" and "\<And>e. (\<And>c. e \<noteq> SystemExit c) \<Longrightarrow> no_exit (h e)"
  shows "no_exit (try_except m h)"
  unfolding no_exit_def
proof (intro allI notI)
  fix w c
  assume *: "fst (try_except m h w) = Inl (SystemExit c)"
  obtain r w' where mw: "m w = (r, w')" by (cases "m w")
  show False
  proof (cases r)
    case (Inr a)
    with mw * show False by (simp add: try_except_def)
  next
    case (Inl e)
    with mw assms(1) have ne: "e \<noteq> SystemExit c" for c by (auto dest: no_exitD)
    have "try_except m h w = h e w'"
    proof (cases e)
      case (SystemExit c)
      with ne show ?thesis by blast
    qed (use Inl mw in \<open>simp_all add: try_except_def\<close>)
    with * assms(2) [OF ne] show False by (simp add: no_exit_def)
  qed
qed

lemma no_exit_try_finally [no_exit_intros]:
  "no_exit m \<Longrightarrow> no_exit n \<Longrightarrow> no_exit (try_finally m n)"
  unfolding no_exit_def try_finally_def
  by (auto split: prod.splits sum.splits) (metis fst_conv)+

lemma no_exit_prims [no_exit_intros]:
  "no_exit (emit e)" "no_exit (debug s)" "no_exit (info s)" "no_exit (warning s)"
  "no_exit (error s)" "no_exit (success s)" "no_exit (print s)" "no_exit (dry_run_print a b)"
  "no_exit (modify_st g)" "no_exit (fs_call E op f)" "no_exit (write_data E p d)"
  "no_exit (read_file p)" "no_exit (subprocess_run E ev check capture_output)"
  "no_exit (urlopen_api E url)" "no_exit (urlopen_salts E url)" "no_exit (input_line E s)"
  "no_exit (timestamp E)" "no_exit (urlretrieve E url p)" "no_exit (extractall E z x y)"
  "no_exit (mkdtemp E)"
  by (auto simp: no_exit_def emit_def debug_def info_def warning_def error_def success_def
      print_def dry_run_print_def modify_st_def fs_call_def write_data_def read_file_def
      subprocess_run_def urlopen_api_def urlopen_salts_def input_line_def timestamp_def
      gets_def urlretrieve_def extractall_def mkdtemp_def seq_def bind_def ret_def Let_def
      split: option.splits node.splits if_splits)

lemma list_all_mapI: "(\<And>x. P (f x)) \<Longrightarrow> list_all P (map f xs)"
  by (induction xs) auto

lemma no_exit_run_cmd [no_exit_intros]: "no_exit (run_cmd E cmd c k d)"
  unfolding run_cmd_def Let_def
  by (intro no_exit_intros list_all_mapI conjI allI impI
      | simp split del: if_split split: error.split option.split api_reply.split)+

lemma emits_run_cmd [emits_intros]:
  assumes "\<And>e. e \<noteq> cleanup_marker \<Longrightarrow> P e"
  shows "emits P (run_cmd E cmd c k d)"
  unfolding run_cmd_def Let_def
  by (intro emits_intros list_all_mapI assms conjI allI impI
      | simp add: cleanup_marker_def split del: if_split
          split: error.split option.split api_reply.split)+

lemma no_exit_atomic_write [no_exit_intros]: "no_exit (atomic_write E p data mode d)"
  unfolding atomic_write_def atomic_write_body_def Let_def
  by (intro no_exit_intros list_all_mapI conjI allI impI
      | simp split del: if_split split: error.split option.split api_reply.split)+

lemma emits_atomic_write [emits_intros]:
  assumes "\<And>e. e \<noteq> cleanup_marker \<Longrightarrow> P e"
  shows "emits P (atomic_write E p data mode d)"
  unfolding atomic_write_def atomic_write_body_def Let_def
  by (intro emits_intros list_all_mapI assms conjI allI impI
      | simp add: cleanup_marker_def split del: if_split
          split: error.split option.split api_reply.split)+

lemma no_exit_fetch_latest_wordpress_download_url [no_exit_intros]: "no_exit (fetch_latest_wordpress_download_url E)"
  unfolding fetch_latest_wordpress_download_url_def Let_def
  by (intro no_exit_intros list_all_mapI conjI allI impI
      | simp split del: if_split split: error.split option.split api_reply.split)+

lemma emits_fetch_latest_wordpress_download_url [emits_intros]:
  assumes "\<And>e. e \<noteq> cleanup_marker \<Longrightarrow> P e"
  shows "emits P (fetch_latest_wordpress_download_url E)"
  unfolding fetch_latest_wordpress_download_url_def Let_def
  by (intro emits_intros list_all_mapI assms conjI allI impI
      | simp add: cleanup_marker_def split del: if_split
          split: error.split option.split api_reply.split)+

lemma no_exit_copy_item [no_exit_intros]: "no_exit (copy_item E dest item)"
  unfolding copy_item_def Let_def
  by (intro no_exit_intros list_all_mapI conjI allI impI
      | simp split del: if_split split: error.split option.split api_reply.split)+

lemma emits_copy_item [emits_intros]:
  assumes "\<And>e. e \<noteq> cleanup_marker \<Longrightarrow> P e"
  shows "emits P (copy_item E dest item)"
  unfolding copy_item_def Let_def
  by (intro emits_intros list_all_mapI assms conjI allI impI
      | simp add: cleanup_marker_def split del: if_split
          split: error.split option.split api_reply.split)+

lemma no_exit_download_and_extract_wp [no_exit_intros]: "no_exit (download_and_extract_wp E url dest d)"
  unfolding download_and_extract_wp_def Let_def
  by (intro no_exit_intros list_all_mapI conjI allI impI
      | simp split del: if_split split: error.split option.split api_reply.split)+

lemma emits_download_and_extract_wp [emits_intros]:
  assumes "\<And>e. e \<noteq> cleanup_marker \<Longrightarrow> P e"
  shows "emits P (download_and_extract_wp E url dest d)"
  unfolding download_and_extract_wp_def Let_def
  by (intro emits_intros list_all_mapI assms conjI allI impI
      | simp add: cleanup_marker_def split del: if_split
          split: error.split option.split api_reply.split)+

lemma no_exit_mysql_exec [no_exit_intros]: "no_exit (mysql_exec E sql d)"
  unfolding mysql_exec_def Let_def
  by (intro no_exit_intros list_all_mapI conjI allI impI
      | simp split del: if_split split: error.split option.split api_reply.split)+

lemma emits_mysql_exec [emits_intros]:
  assumes "\<And>e. e \<noteq> cleanup_marker \<Longrightarrow> P e"
  shows "emits P (mysql_exec E sql d)"
  unfolding mysql_exec_def Let_def
  by (intro emits_intros list_all_mapI assms conjI allI impI
      | simp add: cleanup_marker_def split del: if_split
          split: error.split option.split api_reply.split)+

lemma no_exit_backup_path [no_exit_intros]: "no_exit (backup_path E p)"
  unfolding backup_path_def Let_def
  by (intro no_exit_intros list_all_mapI conjI allI impI
      | simp split del: if_split split: error.split option.split api_reply.split)+

lemma emits_backup_path [emits_intros]:
  assumes "\<And>e. e \<noteq> cleanup_marker \<Longrightarrow> P e"
  shows "emits P (backup_path E p)"
  unfolding backup_path_def Let_def
  by (intro emits_intros list_all_mapI assms conjI allI impI
      | simp add: cleanup_marker_def split del: if_split
          split: error.split option.split api_reply.split)+

lemma no_exit_remove_path [no_exit_intros]: "no_exit (remove_path E p d)"
  unfolding remove_path_def Let_def
  by (intro no_exit_intros list_all_mapI conjI allI impI
      | simp split del: if_split split: error.split option.split api_reply.split)+

lemma emits_remove_path [emits_intros]:
  assumes "\<And>e. e \<noteq> cleanup_marker \<Longrightarrow> P e"
  shows "emits P (remove_path E p d)"
  unfolding remove_path_def Let_def
  by (intro emits_intros list_all_mapI assms conjI allI impI
      | simp add: cleanup_marker_def split del: if_split
          split: error.split option.split api_reply.split)+

lemma no_exit_show_plan [no_exit_intros]: "no_exit (show_plan cfg)"
  unfolding show_plan_def Let_def
  by (intro no_exit_intros list_all_mapI conjI allI impI
      | simp split del: if_split split: error.split option.split api_reply.split)+

lemma emits_show_plan [emits_intros]:
  assumes "\<And>e. e \<noteq> cleanup_marker \<Longrightarrow> P e"
  shows "emits P (show_plan cfg)"
  unfolding show_plan_def Let_def
  by (intro emits_intros list_all_mapI assms conjI allI impI
      | simp add: cleanup_marker_def split del: if_split
          split: error.split option.split api_reply.split)+

lemma no_exit_step_update_system [no_exit_intros]: "no_exit (step_update_system E cfg)"
  unfolding step_update_system_def Let_def
  by (intro no_exit_intros list_all_mapI conjI allI impI
      | simp split del: if_split split: error.split option.split api_reply.split)+

lemma emits_step_update_system [emits_intros]:
  assumes "\<And>e. e \<noteq> cleanup_marker \<Longrightarrow> P e"
  shows "emits P (step_update_system E cfg)"
  unfolding step_update_system_def Let_def
  by (intro emits_intros list_all_mapI assms conjI allI impI
      | simp add: cleanup_marker_def split del: if_split
          split: error.split option.split api_reply.split)+

lemma no_exit_step_install_nginx [no_exit_intros]: "no_exit (step_install_nginx E cfg)"
  unfolding step_install_nginx_def Let_def
  by (intro no_exit_intros list_all_mapI conjI allI impI
      | simp split del: if_split split: error.split option.split api_reply.split)+

lemma emits_step_install_nginx [emits_intros]:
  assumes "\<And>e. e \<noteq> cleanup_marker \<Longrightarrow> P e"
  shows "emits P (step_install_nginx E cfg)"
  unfolding step_install_nginx_def Let_def
  by (intro emits_intros list_all_mapI assms conjI allI impI
      | simp add: cleanup_marker_def split del: if_split
          split: error.split option.split api_reply.split)+

lemma no_exit_step_install_mysql [no_exit_intros]: "no_exit (step_install_mysql E cfg)"
  unfolding step_install_mysql_def Let_def
  by (intro no_exit_intros list_all_mapI conjI allI impI
      | simp split del: if_split split: error.split option.split api_reply.split)+

lemma emits_step_install_mysql [emits_intros]:
  assumes "\<And>e. e \<noteq> cleanup_marker \<Longrightarrow> P e"
  shows "emits P (step_install_mysql E cfg)"
  unfolding step_install_mysql_def Let_def
  by (intro emits_intros list_all_mapI assms conjI allI impI
      | simp add: cleanup_marker_def split del: if_split
          split: error.split option.split api_reply.split)+

lemma no_exit_step_install_php [no_exit_intros]: "no_exit (step_install_php E cfg)"
  unfolding step_install_php_def Let_def
  by (intro no_exit_intros list_all_mapI conjI allI impI
      | simp split del: if_split split: error.split option.split api_reply.split)+

lemma emits_step_install_php [emits_intros]:
  assumes "\<And>e. e \<noteq> cleanup_marker \<Longrightarrow> P e"
  shows "emits P (step_install_php E cfg)"
  unfolding step_install_php_def Let_def
  by (intro emits_intros list_all_mapI assms conjI allI impI
      | simp add: cleanup_marker_def split del: if_split
          split: error.split option.split api_reply.split)+

lemma no_exit_step_create_database [no_exit_intros]: "no_exit (step_create_database E cfg)"
  unfolding step_create_database_def Let_def
  by (intro no_exit_intros list_all_mapI conjI allI impI
      | simp split del: if_split split: error.split option.split api_reply.split)+

lemma emits_step_create_database [emits_intros]:
  assumes "\<And>e. e \<noteq> cleanup_marker \<Longrightarrow> P e"
  shows "emits P (step_create_database E cfg)"
  unfolding step_create_database_def Let_def
  by (intro emits_intros list_all_mapI assms conjI allI impI
      | simp add: cleanup_marker_def split del: if_split
          split: error.split option.split api_reply.split)+

lemma no_exit_prepare_web_root [no_exit_intros]: "no_exit (prepare_web_root E cfg webroot)"
  unfolding prepare_web_root_def Let_def
  by (intro no_exit_intros list_all_mapI conjI allI impI
      | simp split del: if_split split: error.split option.split api_reply.split)+

lemma emits_prepare_web_root [emits_intros]:
  assumes "\<And>e. e \<noteq> cleanup_marker \<Longrightarrow> P e"
  shows "emits P (prepare_web_root E cfg webroot)"
  unfolding prepare_web_root_def Let_def
  by (intro emits_intros list_all_mapI assms conjI allI impI
      | simp add: cleanup_marker_def split del: if_split
          split: error.split option.split api_reply.split)+

lemma no_exit_configure_wp [no_exit_intros]: "no_exit (configure_wp E cfg webroot)"
  unfolding configure_wp_def Let_def
  by (intro no_exit_intros list_all_mapI conjI allI impI
      | simp split del: if_split split: error.split option.split api_reply.split)+

lemma emits_configure_wp [emits_intros]:
  assumes "\<And>e. e \<noteq> cleanup_marker \<Longrightarrow> P e"
  shows "emits P (configure_wp E cfg webroot)"
  unfolding configure_wp_def Let_def
  by (intro emits_intros list_all_mapI assms conjI allI impI
      | simp add: cleanup_marker_def split del: if_split
          split: error.split option.split api_reply.split)+

lemma no_exit_step_download_and_install_wp [no_exit_intros]: "no_exit (step_download_and_install_wp E cfg)"
  unfolding step_download_and_install_wp_def Let_def
  by (intro no_exit_intros list_all_mapI conjI allI impI
      | simp split del: if_split split: error.split option.split api_reply.split)+

lemma emits_step_download_and_install_wp [emits_intros]:
  assumes "\<And>e. e \<noteq> cleanup_marker \<Longrightarrow> P e"
  shows "emits P (step_download_and_install_wp E cfg)"
  unfolding step_download_and_install_wp_def Let_def
  by (intro emits_intros list_all_mapI assms conjI allI impI
      | simp add: cleanup_marker_def split del: if_split
          split: error.split option.split api_reply.split)+

lemma no_exit_prepare_nginx_conf [no_exit_intros]: "no_exit (prepare_nginx_conf E cfg p)"
  unfolding prepare_nginx_conf_def Let_def
  by (intro no_exit_intros list_all_mapI conjI allI impI
      | simp split del: if_split split: error.split option.split api_reply.split)+

lemma emits_prepare_nginx_conf [emits_intros]:
  assumes "\<And>e. e \<noteq> cleanup_marker \<Longrightarrow> P e"
  shows "emits P (prepare_nginx_conf E cfg p)"
  unfolding prepare_nginx_conf_def Let_def
  by (intro emits_intros list_all_mapI assms conjI allI impI
      | simp add: cleanup_marker_def split del: if_split
          split: error.split option.split api_reply.split)+

lemma no_exit_step_configure_nginx [no_exit_intros]: "no_exit (step_configure_nginx E cfg)"
  unfolding step_configure_nginx_def Let_def
  by (intro no_exit_intros list_all_mapI conjI allI impI
      | simp split del: if_split split: error.split option.split api_reply.split)+

lemma emits_step_configure_nginx [emits_intros]:
  assumes "\<And>e. e \<noteq> cleanup_marker \<Longrightarrow> P e"
  shows "emits P (step_configure_nginx E cfg)"
  unfolding step_configure_nginx_def Let_def
  by (intro emits_intros list_all_mapI assms conjI allI impI
      | simp add: cleanup_marker_def split del: if_split
          split: error.split option.split api_reply.split)+

lemma no_exit_step_install_ssl [no_exit_intros]: "no_exit (step_install_ssl E cfg)"
  unfolding step_install_ssl_def Let_def
  by (intro no_exit_intros list_all_mapI conjI allI impI
      | simp split del: if_split split: error.split option.split api_reply.split)+

lemma emits_step_install_ssl [emits_intros]:
  assumes "\<And>e. e \<noteq> cleanup_marker \<Longrightarrow> P e"
  shows "emits P (step_install_ssl E cfg)"
  unfolding step_install_ssl_def Let_def
  by (intro emits_intros list_all_mapI assms conjI allI impI
      | simp add: cleanup_marker_def split del: if_split
          split: error.split option.split api_reply.split)+

lemma no_exit_show_summary [no_exit_intros]: "no_exit (show_summary cfg)"
  unfolding show_summary_def Let_def
  by (intro no_exit_intros list_all_mapI conjI allI impI
      | simp split del: if_split split: error.split option.split api_reply.split)+

lemma emits_show_summary [emits_intros]:
  assumes "\<And>e. e \<noteq> cleanup_marker \<Longrightarrow> P e"
  shows "emits P (show_summary cfg)"
  unfolding show_summary_def Let_def
  by (intro emits_intros list_all_mapI assms conjI allI impI
      | simp add: cleanup_marker_def split del: if_split
          split: error.split option.split api_reply.split)+

lemma no_exit_cleanup_tmp_dir [no_exit_intros]: "no_exit (cleanup_tmp_dir E d td)"
  unfolding cleanup_tmp_dir_def Let_def
  by (intro no_exit_intros list_all_mapI conjI allI impI
      | simp split del: if_split split: error.split option.split api_reply.split)+

lemma emits_cleanup_tmp_dir [emits_intros]:
  assumes "\<And>e. e \<noteq> cleanup_marker \<Longrightarrow> P e"
  shows "emits P (cleanup_tmp_dir E d td)"
  unfolding cleanup_tmp_dir_def Let_def
  by (intro emits_intros list_all_mapI assms conjI allI impI
      | simp add: cleanup_marker_def split del: if_split
          split: error.split option.split api_reply.split)+

lemma no_exit_cleanup_actions [no_exit_intros]: "no_exit (cleanup_actions E c)"
  unfolding cleanup_actions_def Let_def
  by (intro no_exit_intros list_all_mapI conjI allI impI
      | simp split del: if_split split: error.split option.split api_reply.split)+

lemma emits_cleanup_actions [emits_intros]:
  assumes "\<And>e. e \<noteq> cleanup_marker \<Longrightarrow> P e"
  shows "emits P (cleanup_actions E c)"
  unfolding cleanup_actions_def Let_def
  by (intro emits_intros list_all_mapI assms conjI allI impI
      | simp add: cleanup_marker_def split del: if_split
          split: error.split option.split api_reply.split)+

lemma no_exit_finally_tmp_dir [no_exit_intros]: "no_exit (finally_tmp_dir E cfg td)"
  unfolding finally_tmp_dir_def Let_def
  by (intro no_exit_intros list_all_mapI conjI allI impI
      | simp split del: if_split split: error.split option.split api_reply.split)+

lemma emits_finally_tmp_dir [emits_intros]:
  assumes "\<And>e. e \<noteq> cleanup_marker \<Longrightarrow> P e"
  shows "emits P (finally_tmp_dir E cfg td)"
  unfolding finally_tmp_dir_def Let_def
  by (intro emits_intros list_all_mapI assms conjI allI impI
      | simp add: cleanup_marker_def split del: if_split
          split: error.split option.split api_reply.split)+

lemma no_exit_main_finally [no_exit_intros]: "no_exit (main_finally E cfg)"
  unfolding main_finally_def Let_def
  by (intro no_exit_intros list_all_mapI conjI allI impI
      | simp split del: if_split split: error.split option.split api_reply.split)+

lemma emits_main_finally [emits_intros]:
  assumes "\<And>e. e \<noteq> cleanup_marker \<Longrightarrow> P e"
  shows "emits P (main_finally E cfg)"
  unfolding main_finally_def Let_def
  by (intro emits_intros list_all_mapI assms conjI allI impI
      | simp add: cleanup_marker_def split del: if_split
          split: error.split option.split api_reply.split)+

section \<open>The command executor\<close>

lemma run_cmd_perform:
  fixes E cmd capture_output check dry_run w
  assumes "\<not> simulate dry_run w"
  defines "h \<equiv> trace w @ [Log DEBUG ''run_cmd called'', Log INFO ''Executing command'', Shell cmd]"
  defines "r \<equiv> \<lparr>returncode = proc_rc E h,
                  stdout = (if capture_output then proc_stdout E h else []),
                  stderr = (if capture_output then proc_stderr E h else [])\<rparr>"
  defines "res \<equiv> run_cmd E cmd capture_output check dry_run w"
  shows "fst res = (if check \<and> proc_rc E h \<noteq> 0 then Inl (CalledProcessError r) else Inr r)
       \<and> logs_only (w\<lparr>trace := h, fs := proc_fx E h (fs w)\<rparr>) (snd res)"
proof -
  define w3 where "w3 = w\<lparr>trace := h, fs := proc_fx E h (fs w)\<rparr>"
  define w2 where "w2 = w\<lparr>trace := trace w @ [Log DEBUG ''run_cmd called'', Log INFO ''Executing command'']\<rparr>"
  have sub: "subprocess_run E (Shell cmd) check capture_output w2 =
     (if check \<and> proc_rc E h \<noteq> 0 then Inl (CalledProcessError r) else Inr r, w3)"
    by (simp add: subprocess_run_def Let_def w2_def w3_def h_def r_def)
  show ?thesis
  proof (cases "check \<and> proc_rc E h \<noteq> 0")
    case True
    with sub have "subprocess_run E (Shell cmd) check capture_output w2 = (Inl (CalledProcessError r), w3)"
      by simp
    then have "fst res = Inl (CalledProcessError r) \<and> logs_only w3 (snd res)"
      using assms(1) unfolding res_def run_cmd_def
      by (simp add: seq_log cond_simps w2_def [symmetric] try_except_def bind_Inl seq_logger_raise
           logger_block logger_world split del: if_split)
    with True show ?thesis unfolding w3_def by auto
  next
    case False
    with sub have "subprocess_run E (Shell cmd) check capture_output w2 = (Inr r, w3)"
      by simp
    then have "fst res = Inr r \<and> logs_only w3 (snd res)"
      using assms(1) unfolding res_def run_cmd_def
      by (simp add: seq_log cond_simps w2_def [symmetric] try_except_def bind_Inr seq_logger_ret
           logger_block logger_world split del: if_split)
    with False show ?thesis unfolding w3_def by auto
  qed
qed

lemma run_cmd_simulate:
  "simulate dry_run w \<Longrightarrow>
      run_cmd E cmd capture_output check dry_run w =
        (Inr \<lparr>returncode = 0, stdout = [], stderr = []\<rparr>,
         w\<lparr>trace := trace w @ [Log DEBUG ''run_cmd called'', DryRun ''Would run command'' cmd]\<rparr>)"
  by (simp add: run_cmd_def seq_log cond_simps ret_def)

text \<open>
  C8.  In simulate mode (the gate of line 137 holds) \<^verbatim>\<open>run_cmd\<close> returns at once a
  result with exit status 0 and empty output, and all it does is log the call and print
  the dry-run line: no process is spawned.  In perform mode it spawns the command once and
  waits for it; the exit status \<open>proc_rc E h\<close> is the one the environment gives at the
  history \<open>h\<close> of the spawn.  If that status is not zero, the call raises
  \<^verbatim>\<open>CalledProcessError\<close> carrying it when \<^verbatim>\<open>check\<close> is set, and returns the
  failing result otherwise.  After the spawn nothing happens but logging.
\<close>

theorem run_cmd_modes:
  "(simulate dry_run w \<longrightarrow>
      run_cmd E cmd capture_output check dry_run w =
        (Inr \<lparr>returncode = 0, stdout = [], stderr = []\<rparr>,
         w\<lparr>trace := trace w @ [Log DEBUG ''run_cmd called'', DryRun ''Would run command'' cmd]\<rparr>))
   \<and> (\<not> simulate dry_run w \<longrightarrow>
        (let h = trace w @ [Log DEBUG ''run_cmd called'', Log INFO ''Executing command'', Shell cmd];
             cp = \<lparr>returncode = proc_rc E h,
                   stdout = (if capture_output then proc_stdout E h else []),
                   stderr = (if capture_output then proc_stderr E h else [])\<rparr>;
             res = run_cmd E cmd capture_output check dry_run w
         in fst res = (if check \<and> proc_rc E h \<noteq> 0 then Inl (CalledProcessError cp) else Inr cp)
          \<and> logs_only (w\<lparr>trace := h, fs := proc_fx E h (fs w)\<rparr>) (snd res)))"
  using run_cmd_simulate [of dry_run w E cmd capture_output check]
    run_cmd_perform [of dry_run w E cmd capture_output check]
  by (simp add: Let_def)

theorem run_cmd_modes_witness:
  "simulate True world0
   \<and> fst (run_cmd env0 ''apt update'' False True True world0) =
       Inr \<lparr>returncode = 0, stdout = [], stderr = []\<rparr>
   \<and> trace (snd (run_cmd env0 ''apt update'' False True True world0)) =
       [Log DEBUG ''run_cmd called'', DryRun ''Would run command'' ''apt update'']
   \<and> \<not> simulate False world0
   \<and> fst (run_cmd (env0\<lparr>proc_rc := (\<lambda>h. 2)\<rparr>) ''apt update'' False True False world0) =
       Inl (CalledProcessError \<lparr>returncode = 2, stdout = [], stderr = []\<rparr>)
   \<and> fst (run_cmd (env0\<lparr>proc_rc := (\<lambda>h. 2)\<rparr>) ''apt update'' False False False world0) =
       Inr \<lparr>returncode = 2, stdout = [], stderr = []\<rparr>"
  using run_cmd_modes [of True world0 env0 "''apt update''" False True]
    run_cmd_modes [of False world0 "env0\<lparr>proc_rc := (\<lambda>h. 2)\<rparr>" "''apt update''" False True]
    run_cmd_modes [of False world0 "env0\<lparr>proc_rc := (\<lambda>h. 2)\<rparr>" "''apt update''" False False]
  by (simp add: simulate_def world0_def initial_state_def env0_def Let_def)

section \<open>The pipeline: abort on failure, cleanup once\<close>

lemma block_Nil [simp]: "block [] = ret ()"
  by (simp add: block.simps)

lemma block_Cons: "block (m # ms) = seq m (block ms)"
  by (simp add: block.simps seq_def)

lemma block_append:
  "block (xs @ ys) w =
     (case block xs w of (Inl e, w') \<Rightarrow> (Inl e, w') | (Inr u, w') \<Rightarrow> block ys w')"
  by (induction xs arbitrary: w)
     (auto simp: block.simps bind_def ret_def split: prod.splits sum.splits)

lemma block_abort:
  assumes "k < length ms" and "block (take k ms) w0 = (Inr (), w1)"
    and "(ms ! k) w1 = (Inl e, w2)"
  shows "block ms w0 = (Inl e, w2)"
proof -
  have "ms = take k ms @ (ms ! k) # drop (Suc k) ms"
    using assms(1) by (simp add: id_take_nth_drop)
  then have "block ms w0 = block (take k ms @ (ms ! k) # drop (Suc k) ms) w0"
    by simp
  also have "\<dots> = (Inl e, w2)"
    using assms(2,3) by (simp add: block_append block.simps bind_def)
  finally show ?thesis .
qed

lemma cleanup_calls_extends:
  "extends_by (\<lambda>e. e \<noteq> cleanup_marker) w w' \<Longrightarrow> cleanup_calls w' = cleanup_calls w"
proof -
  have "list_all (\<lambda>e. e \<noteq> cleanup_marker) es \<Longrightarrow> filter (\<lambda>e. e = cleanup_marker) es = []" for es
    by (induction es) auto
  then show "extends_by (\<lambda>e. e \<noteq> cleanup_marker) w w' \<Longrightarrow> cleanup_calls w' = cleanup_calls w"
    by (auto simp: extends_by_def cleanup_calls_def)
qed

lemma emits_calls:
  "emits (\<lambda>e. e \<noteq> cleanup_marker) m \<Longrightarrow> cleanup_calls (snd (m w)) = cleanup_calls w"
  by (simp add: emits_def cleanup_calls_extends)

lemma pipeline_emits: "list_all (emits (\<lambda>e. e \<noteq> cleanup_marker)) (pipeline E cfg)"
  by (simp add: pipeline_def emits_intros)

lemma pipeline_no_exit: "list_all no_exit (pipeline E cfg)"
  by (simp add: pipeline_def no_exit_intros)

lemma list_all_take: "list_all P xs \<Longrightarrow> list_all P (take k xs)"
  by (auto simp: list_all_iff dest: in_set_takeD)

lemma try_except_log_total:
  assumes "no_exit m" and "\<And>e. logger (h e)"
  shows "fst (try_except m h w) = Inr ()"
proof (cases "m w")
  case (Pair r w')
  show ?thesis
  proof (cases r)
    case (Inr a)
    with Pair show ?thesis by (simp add: try_except_def)
  next
    case (Inl e)
    with Pair assms(1) have ne: "e \<noteq> SystemExit c" for c by (auto dest: no_exitD)
    have "try_except m h w = h e w'"
    proof (cases e)
      case (SystemExit c)
      with ne show ?thesis by blast
    qed (use Inl Pair in \<open>simp_all add: try_except_def\<close>)
    then show ?thesis using assms(2) by (simp add: logger_result)
  qed
qed

lemma block_map_total:
  "(\<And>x w. fst (f x w) = Inr ()) \<Longrightarrow> fst (block (map f xs) w) = Inr ()"
proof (induction xs arbitrary: w)
  case Nil
  then show ?case by (simp add: ret_def)
next
  case (Cons x xs)
  obtain w' where "f x w = (Inr (), w')"
    using Cons.prems [of x w] by (cases "f x w") auto
  then show ?case using Cons by (simp add: block.simps bind_def)
qed

lemma main_finally_total: "fst (main_finally E cfg w) = Inr ()"
  unfolding main_finally_def
  by (simp add: seq_log bind_def gets_def block_map_total finally_tmp_dir_def
      try_except_log_total no_exit_intros)

lemma try_finally_total:
  "fst (n (snd (m w))) = Inr () \<Longrightarrow> try_finally m n w = (fst (m w), snd (n (snd (m w))))"
  by (cases "m w"; cases "n (snd (m w))") (auto simp: try_finally_def)

lemma try_except_Inl:
  assumes "m w = (Inl e, w')" and "\<And>c. e \<noteq> SystemExit c"
  shows "try_except m h w = h e w'"
proof (cases e)
  case (SystemExit c)
  with assms(2) show ?thesis by blast
qed (use assms(1) in \<open>simp_all add: try_except_def\<close>)

lemma seq_Inr: "m w = (Inr a, w') \<Longrightarrow> seq m n w = n w'"
  by (simp add: seq_def bind_def)

lemma seq_Inl: "m w = (Inl e, w') \<Longrightarrow> seq m n w = (Inl e, w')"
  by (simp add: seq_def bind_def)

lemma seq_raise [simp]: "seq (raise e) n w = (Inl e, w)"
  by (simp add: seq_def bind_def raise_def)

lemma try_except_Inr: "m w = (Inr a, w') \<Longrightarrow> try_except m h w = (Inr a, w')"
  by (simp add: try_except_def)

lemma try_except_cleanup_full:
  "try_except (cleanup_full E c) h w =
     try_except (cleanup_actions E c) h (w\<lparr>trace := trace w @ [cleanup_marker]\<rparr>)"
  by (simp add: try_except_def cleanup_full_def seq_log cleanup_marker_def)

lemma main_except_result:
  "main_except E cfg exc w =
     (Inl (SystemExit 1),
      snd (try_except (cleanup_full E (Some cfg)) (\<lambda>e. error ''Cleanup encountered errors'')
        (w\<lparr>trace := trace w @ [Log ERROR ''Installation failed'', Log DEBUG ''Exception details'']\<rparr>)))"
proof -
  let ?T = "try_except (cleanup_full E (Some cfg)) (\<lambda>e. error ''Cleanup encountered errors'')"
  let ?w = "w\<lparr>trace := trace w @ [Log ERROR ''Installation failed'', Log DEBUG ''Exception details'']\<rparr>"
  have "no_exit (cleanup_full E (Some cfg))"
    unfolding cleanup_full_def by (intro no_exit_intros)
  then have "fst (?T ?w) = Inr ()"
    by (rule try_except_log_total) simp
  then obtain w' where "?T ?w = (Inr (), w')" by (cases "?T ?w") auto
  then show ?thesis
    by (simp add: main_except_def block_Cons seq_log seq_Inr)
qed


lemma main_run_failure:
  assumes k: "k < length (pipeline E cfg)"
    and pre: "block (take k (pipeline E cfg)) w0 = (Inr (), w1)"
    and fail: "(pipeline E cfg ! k) w1 = (Inl e, w2)"
  defines "w2' \<equiv> w2\<lparr>trace := trace w2 @ [Log ERROR ''Installation failed'', Log DEBUG ''Exception details'']\<rparr>"
  defines "w3 \<equiv> snd (try_except (cleanup_full E (Some cfg)) (\<lambda>e. error ''Cleanup encountered errors'') w2')"
  shows "block (pipeline E cfg) w0 = (Inl e, w2)"
    and "main_run E cfg w0 = (Inl (SystemExit 1), snd (main_finally E cfg w3))"
    and "cleanup_calls (snd (main_run E cfg w0)) = cleanup_calls w0 + 1"
proof -
  let ?P = "\<lambda>e. e \<noteq> cleanup_marker"
  show abort: "block (pipeline E cfg) w0 = (Inl e, w2)"
    using k pre fail by (rule block_abort)
  then have body: "block (main_try_body E cfg) w0 = (Inl e, w2)"
    by (simp add: main_try_body_def block_append)
  have "no_exit (pipeline E cfg ! k)"
    using pipeline_no_exit [of E cfg] k by (simp add: list_all_length)
  with fail have ne: "e \<noteq> SystemExit c" for c
    by (auto dest: no_exitD)
  have "try_except (block (main_try_body E cfg)) (main_except E cfg) w0 = main_except E cfg e w2"
    using body ne by (rule try_except_Inl)
  then have te: "try_except (block (main_try_body E cfg)) (main_except E cfg) w0 =
      (Inl (SystemExit 1), w3)"
    by (simp add: main_except_result w3_def w2'_def)
  show run: "main_run E cfg w0 = (Inl (SystemExit 1), snd (main_finally E cfg w3))"
    unfolding main_run_def
    by (subst try_finally_total) (simp_all add: te main_finally_total)
  have "emits ?P (block (take k (pipeline E cfg)))"
    by (intro emits_block list_all_take pipeline_emits)
  from emits_calls [OF this, of w0] pre have c1: "cleanup_calls w1 = cleanup_calls w0"
    by simp
  have "emits ?P (pipeline E cfg ! k)"
    using pipeline_emits [of E cfg] k by (simp add: list_all_length)
  from emits_calls [OF this, of w1] fail have c2: "cleanup_calls w2 = cleanup_calls w1"
    by simp
  have c3: "cleanup_calls (w2'\<lparr>trace := trace w2' @ [cleanup_marker]\<rparr>) = cleanup_calls w2 + 1"
    by (simp add: cleanup_calls_def w2'_def cleanup_marker_def)
  have "emits ?P (try_except (cleanup_actions E (Some cfg)) (\<lambda>e. error ''Cleanup encountered errors''))"
    by (intro emits_intros) (simp_all add: cleanup_marker_def)
  from emits_calls [OF this, of "w2'\<lparr>trace := trace w2' @ [cleanup_marker]\<rparr>"]
  have c4: "cleanup_calls w3 = cleanup_calls w2 + 1"
    by (simp add: w3_def try_except_cleanup_full c3)
  have "emits ?P (main_finally E cfg)"
    by (intro emits_intros) simp
  from emits_calls [OF this, of w3]
  show "cleanup_calls (snd (main_run E cfg w0)) = cleanup_calls w0 + 1"
    by (simp add: run c1 c2 c4)
qed

lemma main_run_success:
  assumes ok: "block (pipeline E cfg) w0 = (Inr (), w1)"
  shows "fst (main_run E cfg w0) = Inr ()"
    and "cleanup_calls (snd (main_run E cfg w0)) = cleanup_calls w0"
proof -
  let ?P = "\<lambda>e. e \<noteq> cleanup_marker"
  let ?tail = "block [info ''All installation steps completed'', show_summary cfg]"
  have lg: "logger ?tail"
    by (intro logger_block) (simp add: show_summary_def logger_block)
  then obtain w1' where tail: "?tail w1 = (Inr (), w1')"
    by (cases "?tail w1") (auto simp: logger_def dest!: spec [of _ w1])
  have body: "block (main_try_body E cfg) w0 = (Inr (), w1')"
    using ok tail by (simp add: main_try_body_def block_append)
  then have te: "try_except (block (main_try_body E cfg)) (main_except E cfg) w0 = (Inr (), w1')"
    by (rule try_except_Inr)
  have run: "main_run E cfg w0 = (Inr (), snd (main_finally E cfg w1'))"
    unfolding main_run_def
    by (subst try_finally_total) (simp_all add: te main_finally_total)
  then show "fst (main_run E cfg w0) = Inr ()" by simp
  have "emits ?P (block (pipeline E cfg))"
    by (intro emits_block pipeline_emits)
  from emits_calls [OF this, of w0] ok have c1: "cleanup_calls w1 = cleanup_calls w0"
    by simp
  have "emits ?P ?tail"
    by (intro emits_intros conjI | simp add: cleanup_marker_def)+
  from emits_calls [OF this, of w1] tail have c2: "cleanup_calls w1' = cleanup_calls w1"
    by simp
  have "emits ?P (main_finally E cfg)"
    by (intro emits_intros) simp
  from emits_calls [OF this, of w1']
  show "cleanup_calls (snd (main_run E cfg w0)) = cleanup_calls w0"
    by (simp add: run c1 c2)
qed

text \<open>
  C1, as amended.  Suppose the first \<open>k\<close> steps of the pipeline complete and step \<open>k\<close>
  raises \<open>e\<close>, leaving the world \<open>w2\<close>.  Then the pipeline ends there with \<open>e\<close> and
  the world \<open>w2\<close>: no later step has run.  The handler logs the failure and calls
  \<^verbatim>\<open>cleanup_full\<close> on that world, whose run state is the one at the moment of the failure
  (what the completed steps recorded, and what step \<open>k\<close> recorded before it raised); then
  the \<^verbatim>\<open>finally\<close> block runs and the process exits with status 1.  Over the whole run
  \<^verbatim>\<open>cleanup_full\<close> is entered exactly once.  If all steps complete, the process ends
  with status 0 and \<^verbatim>\<open>cleanup_full\<close> is never entered.
\<close>

theorem pipeline_abort_cleanup_once:
  "(k < length (pipeline E cfg) \<and> block (take k (pipeline E cfg)) w0 = (Inr (), w1) \<and>
    (pipeline E cfg ! k) w1 = (Inl e, w2) \<longrightarrow>
      (let w2' = w2\<lparr>trace := trace w2 @
                   [Log ERROR ''Installation failed'', Log DEBUG ''Exception details'']\<rparr>;
           w3 = snd (try_except (cleanup_full E (Some cfg))
                       (\<lambda>e. error ''Cleanup encountered errors'') w2')
       in block (pipeline E cfg) w0 = (Inl e, w2)
        \<and> main_run E cfg w0 = (Inl (SystemExit 1), snd (main_finally E cfg w3))
        \<and> exit_code (fst (main_run E cfg w0)) = 1
        \<and> cleanup_calls (snd (main_run E cfg w0)) = cleanup_calls w0 + 1))
   \<and> (block (pipeline E cfg) w0 = (Inr (), w1) \<longrightarrow>
        exit_code (fst (main_run E cfg w0)) = 0
        \<and> cleanup_calls (snd (main_run E cfg w0)) = cleanup_calls w0)"
  using main_run_failure [of k E cfg w0 w1 e w2] main_run_success [of E cfg w0 w1]
  by (simp add: Let_def exit_code_def)

end
